theory Spec2Isabelle
  imports Main "HOL-Library.Word" "HOL-Library.Monad_Syntax"
begin

unbundle bit_operations_syntax

section \<open>Go values\<close>

text \<open>
  A Go string is a sequence of bytes: \<^typ>\<open>string\<close>, a list of 8-bit characters.
  A byte of a byte array is an \<^typ>\<open>8 word\<close>.

  An \<^verbatim>\<open>error\<close> value is represented by the text its \<^verbatim>\<open>Error()\<close> method returns
  (what \<^verbatim>\<open>errors.New\<close> and \<^verbatim>\<open>fmt.Errorf\<close> build); a nil \<^verbatim>\<open>error\<close> interface is
  \<^verbatim>\<open>None\<close> of the option type.
\<close>

type_synonym byte = "8 word"

datatype error = ErrorString string

fun Error :: "error \<Rightarrow> string" where
  "Error (ErrorString s) = s"

text \<open>
  The values the program hands to package \<^verbatim>\<open>fmt\<close> as \<^verbatim>\<open>interface{}\<close> operands:
  a string, an int, a non-nil error value, and a non-nil \<^verbatim>\<open>*httpError\<close>. Of the
  last only the embedded \<^verbatim>\<open>error\<close> matters to \<^verbatim>\<open>fmt\<close>: \<^verbatim>\<open>httpError\<close> embeds the
  interface, so \<^verbatim>\<open>*httpError\<close> has the promoted method \<^verbatim>\<open>Error()\<close>, which calls the
  embedded value's method.
\<close>

datatype fval =
    VString string
  | VInt int
  | VError error
  | VHTTPError "error option"

section \<open>Package fmt: the modelled fragment\<close>

text \<open>
  \<^verbatim>\<open>strconv.Quote\<close> on ASCII strings (verb \<^verbatim>\<open>%q\<close>): the quote and the backslash are
  backslashed, printable ASCII is copied, the seven named control characters get
  their letter, every other control character and DEL is \<^verbatim>\<open>\xNN\<close>. A byte from 0x80
  on needs UTF-8 decoding and the Unicode tables: outside the fragment (\<^term>\<open>None\<close>).
\<close>

definition lowerhex :: string where
  "lowerhex = ''0123456789abcdef''"

definition appendEscapedRune :: "char \<Rightarrow> string" where
  "appendEscapedRune r =
     (let n = (of_char r :: nat) in
      if n = 0x22 \<or> n = 0x5C then [CHR 0x5C, r]
      else if 0x20 \<le> n \<and> n < 0x7F then [r]
      else if n = 7 then [CHR 0x5C, CHR ''a'']
      else if n = 8 then [CHR 0x5C, CHR ''b'']
      else if n = 12 then [CHR 0x5C, CHR ''f'']
      else if n = 10 then [CHR 0x5C, CHR ''n'']
      else if n = 13 then [CHR 0x5C, CHR ''r'']
      else if n = 9 then [CHR 0x5C, CHR ''t'']
      else if n = 11 then [CHR 0x5C, CHR ''v'']
      else [CHR 0x5C, CHR ''x'', lowerhex ! (n div 16), lowerhex ! (n mod 16)])"

definition Quote :: "string \<Rightarrow> string option" where
  "Quote s =
     (if list_all (\<lambda>c. (of_char c :: nat) < 0x80) s
      then Some ([CHR 0x22] @ concat (map appendEscapedRune s) @ [CHR 0x22])
      else None)"

text \<open>Decimal digits of an integer (verbs \<^verbatim>\<open>%d\<close> and \<^verbatim>\<open>%v\<close> of an int).\<close>

fun fmtNat :: "nat \<Rightarrow> string" where
  "fmtNat n =
     (if n < 10 then [''0123456789'' ! n]
      else fmtNat (n div 10) @ [''0123456789'' ! (n mod 10)])"

definition fmtInteger :: "int \<Rightarrow> string" where
  "fmtInteger i = (if i < 0 then CHR ''-'' # fmtNat (nat (- i)) else fmtNat (nat i))"

text \<open>
  \<^verbatim>\<open>badVerb\<close>: \<^verbatim>\<open>%!verb(type=value)\<close>, the value printed with \<^verbatim>\<open>%v\<close>.
  \<^verbatim>\<open>catchPanic\<close>: what \<^verbatim>\<open>fmt\<close> prints when the operand's \<^verbatim>\<open>Error\<close> method panics;
  it recovers the panic, here the nil dereference of calling the promoted
  \<^verbatim>\<open>Error()\<close> of an \<^verbatim>\<open>httpError\<close> whose embedded error is nil.
\<close>

definition badVerb :: "char \<Rightarrow> string \<Rightarrow> string \<Rightarrow> string" where
  "badVerb verb ty v = ''%!'' @ [verb] @ ''('' @ ty @ ''='' @ v @ '')''"

definition catchPanic :: "char \<Rightarrow> string" where
  "catchPanic verb =
     ''%!'' @ [verb] @ ''(PANIC=Error method: '' @
     ''runtime error: invalid memory address or nil pointer dereference'' @ '')''"

text \<open>
  \<^verbatim>\<open>fmtString\<close>: a string under the verbs \<^verbatim>\<open>v\<close>, \<^verbatim>\<open>s\<close>, \<^verbatim>\<open>q\<close>. The result is
  \<^term>\<open>None\<close> where the fragment ends (the hexadecimal verbs).
\<close>

definition fmtString :: "string \<Rightarrow> char \<Rightarrow> string option" where
  "fmtString s verb =
     (if verb = CHR ''v'' \<or> verb = CHR ''s'' then Some s
      else if verb = CHR ''q'' then Quote s
      else if verb = CHR ''x'' \<or> verb = CHR ''X'' then None
      else Some (badVerb verb ''string'' s))"

text \<open>
  \<^verbatim>\<open>printArg\<close>: one operand under one verb. \<^verbatim>\<open>%T\<close> prints the type. An operand that
  implements \<^verbatim>\<open>error\<close> is printed through its \<^verbatim>\<open>Error()\<close> method under the verbs
  that accept a string (\<^verbatim>\<open>handleMethods\<close>); under any other verb it is printed by
  reflection on its concrete type, which is outside the fragment.
\<close>

fun printArg :: "fval \<Rightarrow> char \<Rightarrow> string option" where
  "printArg (VString s) verb =
     (if verb = CHR ''T'' then Some ''string'' else fmtString s verb)"
| "printArg (VInt i) verb =
     (if verb = CHR ''T'' then Some ''int''
      else if verb = CHR ''v'' \<or> verb = CHR ''d'' then Some (fmtInteger i)
      else if verb \<in> set ''boOxXcqU'' then None
      else Some (badVerb verb ''int'' (fmtInteger i)))"
| "printArg (VError e) verb =
     (if verb \<in> set ''vsq'' then fmtString (Error e) verb else None)"
| "printArg (VHTTPError c) verb =
     (if verb \<in> set ''vsq'' then
        (case c of None \<Rightarrow> Some (catchPanic verb) | Some e \<Rightarrow> fmtString (Error e) verb)
      else None)"

text \<open>
  The operands left over when the format is used up: \<^verbatim>\<open>%!(EXTRA type=value, ...)\<close>.
  The type name of an error operand is its concrete type: outside the fragment.
\<close>

fun extraArg :: "fval \<Rightarrow> string option" where
  "extraArg (VString s) = Some (''string='' @ s)"
| "extraArg (VInt i) = Some (''int='' @ fmtInteger i)"
| "extraArg (VError e) = None"
| "extraArg (VHTTPError c) = None"

fun extraArgs :: "fval list \<Rightarrow> string option" where
  "extraArgs [] = Some []"
| "extraArgs [x] = extraArg x"
| "extraArgs (x # xs) =
     (case extraArg x of None \<Rightarrow> None
      | Some s \<Rightarrow> (case extraArgs xs of None \<Rightarrow> None | Some r \<Rightarrow> Some (s @ '', '' @ r)))"

definition extra :: "fval list \<Rightarrow> string option" where
  "extra a =
     (if a = [] then Some []
      else (case extraArgs a of None \<Rightarrow> None | Some r \<Rightarrow> Some (''%!(EXTRA '' @ r @ '')'')))"

text \<open>
  \<^verbatim>\<open>doPrintf\<close>: the format loop. Text up to a \<^verbatim>\<open>%\<close> is copied. After a \<^verbatim>\<open>%\<close>: the end of
  the format gives \<^verbatim>\<open>%!(NOVERB)\<close>; \<^verbatim>\<open>%%\<close> gives a percent sign and uses no operand; a
  flag, a width, a precision or an operand index (a character of \<^verbatim>\<open>#0+- 123456789.[*\<close>)
  and a verb outside ASCII are outside the fragment; any other character is the verb,
  which prints the next operand, or \<^verbatim>\<open>%!verb(MISSING)\<close> when none is left.
\<close>

fun doPrintf :: "string \<Rightarrow> fval list \<Rightarrow> string option" where
  "doPrintf [] a = extra a"
| "doPrintf (c # fs) a =
     (if c \<noteq> CHR ''%'' then map_option ((#) c) (doPrintf fs a)
      else (case fs of
          [] \<Rightarrow> map_option ((@) ''%!(NOVERB)'') (extra a)
        | verb # fs' \<Rightarrow>
            if verb = CHR ''%'' then map_option ((#) CHR ''%'') (doPrintf fs' a)
            else if verb \<in> set ''#0+- 123456789.[*'' \<or> 0x80 \<le> (of_char verb :: nat) then None
            else (case a of
                [] \<Rightarrow> map_option ((@) (''%!'' @ [verb] @ ''(MISSING)'')) (doPrintf fs' [])
              | x # a' \<Rightarrow>
                  (case printArg x verb of
                     None \<Rightarrow> None
                   | Some s \<Rightarrow> map_option ((@) s) (doPrintf fs' a')))))"

text \<open>
  \<^verbatim>\<open>fmt.Sprintf\<close> returns a string for every format and every operand list (its Go
  signature has no error result, and panics of operand methods are recovered). The
  fragment above computes it; what the rest of package \<^verbatim>\<open>fmt\<close> prints for a format or
  an operand outside the fragment is the parameter \<open>rest\<close>, about which nothing is
  assumed.
\<close>

type_synonym fmt_rest = "string \<Rightarrow> fval list \<Rightarrow> string"

definition Sprintf :: "fmt_rest \<Rightarrow> string \<Rightarrow> fval list \<Rightarrow> string" where
  "Sprintf rest format a = (case doPrintf format a of Some s \<Rightarrow> s | None \<Rightarrow> rest format a)"

text \<open>\<^verbatim>\<open>fmt.Errorf\<close>: the error whose text is the formatted string.\<close>

definition Errorf :: "fmt_rest \<Rightarrow> string \<Rightarrow> fval list \<Rightarrow> error" where
  "Errorf rest format a = ErrorString (Sprintf rest format a)"

section \<open>Package encoding/hex\<close>

text \<open>
  \<^verbatim>\<open>hex.Encode(dst, src)\<close> writes two lower-case hexadecimal digits per source byte:
  \<^verbatim>\<open>dst[j] = hextable[v>>4]; dst[j+1] = hextable[v&0x0f]; j += 2\<close>.
  The destination is a slice \<^verbatim>\<open>buf[lo:hi]\<close> of the caller's buffer, so the writes land
  in the buffer at offset \<open>lo\<close>. Slicing beyond the buffer and indexing beyond the
  slice panic in Go: the result is \<^term>\<open>None\<close>.
\<close>

definition hextable :: string where
  "hextable = ''0123456789abcdef''"

fun Encode_loop :: "string \<Rightarrow> nat \<Rightarrow> nat \<Rightarrow> nat \<Rightarrow> byte list \<Rightarrow> string option" where
  "Encode_loop buf lo n j [] = Some buf"
| "Encode_loop buf lo n j (v # src) =
     (if j + 1 < n
      then Encode_loop
             (buf[lo + j := hextable ! unat (drop_bit 4 v),
                  lo + j + 1 := hextable ! unat (v AND 0x0f)])
             lo n (j + 2) src
      else None)"

definition Encode :: "string \<Rightarrow> nat \<Rightarrow> nat \<Rightarrow> byte list \<Rightarrow> string option" where
  "Encode buf lo hi src =
     (if lo \<le> hi \<and> hi \<le> length buf then Encode_loop buf lo (hi - lo) 0 src else None)"

text \<open>\<^verbatim>\<open>u[lo:hi]\<close> of a byte array.\<close>

definition slice :: "'a list \<Rightarrow> nat \<Rightarrow> nat \<Rightarrow> 'a list" where
  "slice u lo hi = take (hi - lo) (drop lo u)"

section \<open>genUUID\<close>

text \<open>
  \<^verbatim>\<open>rand.Read(u[:])\<close> on the 16-byte array \<^verbatim>\<open>u\<close> either returns an error or fills
  the whole array. The outcome is an input of the model: \<open>RandFail err\<close>, or
  \<open>RandBytes f\<close> where \<open>f i\<close> is the byte read into \<^verbatim>\<open>u[i]\<close>.
\<close>

datatype random = RandFail error | RandBytes "nat \<Rightarrow> byte"

text \<open>
  The result is Go's pair \<^verbatim>\<open>(string, error)\<close>; the outer option is \<^term>\<open>None\<close> when
  the function panics. \<^verbatim>\<open>make([]byte, 36)\<close> is 36 zero bytes; the four assignments
  \<^verbatim>\<open>buf[8] = '-'\<close> ... are within its length.
\<close>

definition genUUID :: "fmt_rest \<Rightarrow> random \<Rightarrow> (string \<times> error option) option" where
  "genUUID rest rnd =
     (case rnd of
        RandFail err \<Rightarrow> Some ([], Some (Errorf rest ''genUUID: %v'' [VError err]))
      | RandBytes f \<Rightarrow>
          (let u = map f [0..<16]; buf = replicate 36 (CHR 0x00) in
           do {
             buf \<leftarrow> Encode buf 0 8 (slice u 0 4);
             let buf = buf[8 := CHR ''-''];
             buf \<leftarrow> Encode buf 9 13 (slice u 4 6);
             let buf = buf[13 := CHR ''-''];
             buf \<leftarrow> Encode buf 14 18 (slice u 6 8);
             let buf = buf[18 := CHR ''-''];
             buf \<leftarrow> Encode buf 19 23 (slice u 8 10);
             let buf = buf[23 := CHR ''-''];
             buf \<leftarrow> Encode buf 24 (length buf) (slice u 10 (length u));
             Some (buf, None)
           }))"

text \<open>
  \<^verbatim>\<open>hex.EncodeToString\<close> and \<^verbatim>\<open>hex.DecodeString\<close>, to say which bytes a
  hexadecimal string encodes.
\<close>

definition EncodeToString :: "byte list \<Rightarrow> string" where
  "EncodeToString src =
     concat (map (\<lambda>v. [hextable ! unat (drop_bit 4 v), hextable ! unat (v AND 0x0f)]) src)"

definition fromHexChar :: "char \<Rightarrow> nat option" where
  "fromHexChar c =
     (let n = (of_char c :: nat) in
      if 0x30 \<le> n \<and> n \<le> 0x39 then Some (n - 0x30)
      else if 0x61 \<le> n \<and> n \<le> 0x66 then Some (n - 0x61 + 10)
      else if 0x41 \<le> n \<and> n \<le> 0x46 then Some (n - 0x41 + 10)
      else None)"

fun DecodeString :: "string \<Rightarrow> byte list option" where
  "DecodeString [] = Some []"
| "DecodeString [c] = None"
| "DecodeString (a # b # s) =
     (case (fromHexChar a, fromHexChar b, DecodeString s) of
        (Some x, Some y, Some r) \<Rightarrow> Some (of_nat (16 * x + y) # r)
      | _ \<Rightarrow> None)"

section \<open>Package encoding/json\<close>

text \<open>
  \<^verbatim>\<open>utf8.DecodeRuneInString\<close>: the rune at the head of a string and its width in
  bytes; \<open>(RuneError, 1)\<close> for an invalid encoding. The table \<^verbatim>\<open>first\<close> gives, for
  the first byte, the width of the encoding (here 1 for ASCII and 0 for a byte that
  cannot start one) and the range \<^verbatim>\<open>acceptRanges\<close> allows for the second byte; the
  later bytes are continuation bytes, 0x80 to 0xBF.
\<close>

definition RuneError :: nat where
  "RuneError = 0xFFFD"

definition first_size :: "nat \<Rightarrow> nat" where
  "first_size s0 =
     (if s0 < 0x80 then 1 else if s0 < 0xC2 then 0 else if s0 < 0xE0 then 2
      else if s0 < 0xF0 then 3 else if s0 < 0xF5 then 4 else 0)"

definition accept_lo :: "nat \<Rightarrow> nat" where
  "accept_lo s0 = (if s0 = 0xE0 then 0xA0 else if s0 = 0xF0 then 0x90 else 0x80)"

definition accept_hi :: "nat \<Rightarrow> nat" where
  "accept_hi s0 = (if s0 = 0xED then 0x9F else if s0 = 0xF4 then 0x8F else 0xBF)"

definition DecodeRuneInString :: "string \<Rightarrow> nat \<times> nat" where
  "DecodeRuneInString s =
     (case s of
        [] \<Rightarrow> (RuneError, 0)
      | b # src \<Rightarrow>
          (let s0 = (of_char b :: nat); sz = first_size s0 in
           if sz = 1 then (s0, 1)
           else if sz = 0 then (RuneError, 1)
           else if length s < sz then (RuneError, 1)
           else
             (let s1 = (of_char (src ! 0) :: nat) in
              if s1 < accept_lo s0 \<or> accept_hi s0 < s1 then (RuneError, 1)
              else if sz \<le> 2 then ((s0 mod 32) * 64 + s1 mod 64, 2)
              else
                (let s2 = (of_char (src ! 1) :: nat) in
                 if s2 < 0x80 \<or> 0xBF < s2 then (RuneError, 1)
                 else if sz \<le> 3 then ((s0 mod 16) * 4096 + (s1 mod 64) * 64 + s2 mod 64, 3)
                 else
                   (let s3 = (of_char (src ! 2) :: nat) in
                    if s3 < 0x80 \<or> 0xBF < s3 then (RuneError, 1)
                    else ((s0 mod 8) * 262144 + (s1 mod 64) * 4096 + (s2 mod 64) * 64
                            + s3 mod 64, 4))))))"

text \<open>
  \<^verbatim>\<open>appendString\<close> with \<^verbatim>\<open>escapeHTML\<close> set, as \<^verbatim>\<open>json.Marshal\<close> calls it. An ASCII
  byte of \<^verbatim>\<open>htmlSafeSet\<close> is copied: every byte from 0x20 on but the quote, the
  backslash and \<^verbatim>\<open><\<close>, \<^verbatim>\<open>>\<close>, \<^verbatim>\<open>&\<close>. The others are escaped: the quote and the
  backslash with a backslash, five control characters with their letter, the rest
  as \<^verbatim>\<open>\u00XX\<close>. From 0x80 on: an invalid UTF-8 byte becomes the escape of U+FFFD, U+2028 and
  U+2029 are escaped, every other rune is copied.
\<close>

definition htmlSafeSet :: "char \<Rightarrow> bool" where
  "htmlSafeSet b \<longleftrightarrow> 0x20 \<le> (of_char b :: nat) \<and> b \<notin> set [CHR 0x22, CHR ''&'', CHR ''<'', CHR ''>'', CHR 0x5C]"

definition escapeByte :: "char \<Rightarrow> string" where
  "escapeByte b =
     (let n = (of_char b :: nat) in
      if n = 0x5C \<or> n = 0x22 then [CHR 0x5C, b]
      else if n = 8 then [CHR 0x5C, CHR ''b'']
      else if n = 12 then [CHR 0x5C, CHR ''f'']
      else if n = 10 then [CHR 0x5C, CHR ''n'']
      else if n = 13 then [CHR 0x5C, CHR ''r'']
      else if n = 9 then [CHR 0x5C, CHR ''t'']
      else [CHR 0x5C, CHR ''u'', CHR ''0'', CHR ''0'', lowerhex ! (n div 16), lowerhex ! (n mod 16)])"

fun appendString_loop :: "string \<Rightarrow> string" where
  "appendString_loop [] = []"
| "appendString_loop (b # src) =
     (if (of_char b :: nat) < 0x80
      then (if htmlSafeSet b then [b] else escapeByte b) @ appendString_loop src
      else
        (let c = fst (DecodeRuneInString (b # src));
             size = snd (DecodeRuneInString (b # src))
         in if c = RuneError \<and> size = 1
              then (CHR 0x5C # ''ufffd'') @ appendString_loop src
            else if c = 0x2028 \<or> c = 0x2029
              then (CHR 0x5C # ''u202'') @ [lowerhex ! (c mod 16)]
                     @ appendString_loop (drop (size - 1) src)
            else b # take (size - 1) src @ appendString_loop (drop (size - 1) src)))"

definition appendString :: "string \<Rightarrow> string" where
  "appendString src = [CHR 0x22] @ appendString_loop src @ [CHR 0x22]"

text \<open>
  \<^verbatim>\<open>json.Marshal\<close> on the Go values of this model: a string, a struct given by its
  fields' JSON names and values, and a channel, which stands for the types
  \<^verbatim>\<open>json.Marshal\<close> refuses with an \<^verbatim>\<open>UnsupportedTypeError\<close>. The result is Go's pair
  \<^verbatim>\<open>([]byte, error)\<close> as a sum, \<open>Inl\<close> the error.
\<close>

datatype jval = JString string | JStruct "(string \<times> jval) list" | JChan

fun Marshal :: "jval \<Rightarrow> error + string"
  and marshalFields :: "(string \<times> jval) list \<Rightarrow> error + string" where
  "Marshal (JString s) = Inr (appendString s)"
| "Marshal (JStruct fs) =
     (case marshalFields fs of Inl e \<Rightarrow> Inl e | Inr b \<Rightarrow> Inr (''{'' @ b @ ''}''))"
| "Marshal JChan = Inl (ErrorString ''json: unsupported type: chan int'')"
| "marshalFields [] = Inr []"
| "marshalFields ((name, v) # fs) =
     (case Marshal v of
        Inl e \<Rightarrow> Inl e
      | Inr b \<Rightarrow>
          (case marshalFields fs of
             Inl e \<Rightarrow> Inl e
           | Inr r \<Rightarrow>
               Inr ([CHR 0x22] @ name @ [CHR 0x22] @ '':'' @ b @ (if fs = [] then [] else '','' @ r))))"

section \<open>httpError\<close>

text \<open>
  \<^verbatim>\<open>type httpError struct { error; code int; msg string; args []interface{} }\<close>.
  The embedded field \<open>error\<close> may be nil.
\<close>

record httpError =
  error :: "error option"
  code :: int
  msg :: string
  args :: "fval list"

definition newHTTPError :: "error option \<Rightarrow> int \<Rightarrow> string \<Rightarrow> fval list \<Rightarrow> httpError" where
  "newHTTPError err c m a = \<lparr>error = err, code = c, msg = m, args = a\<rparr>"

definition error500 :: "error option \<Rightarrow> httpError" where
  "error500 err = newHTTPError err 500 ''internal server error'' []"

definition error400 :: "error option \<Rightarrow> string \<Rightarrow> fval list \<Rightarrow> httpError" where
  "error400 err m a = newHTTPError err 400 m a"

definition error404 :: "error option \<Rightarrow> string \<Rightarrow> fval list \<Rightarrow> httpError" where
  "error404 err m a = newHTTPError err 404 m a"

text \<open>
  \<^verbatim>\<open>MarshalJSON\<close>: the struct with the one field \<^verbatim>\<open>Err string `json:"err"`\<close>, set to
  \<^verbatim>\<open>fmt.Sprintf(err.msg, err.args...)\<close>, through \<^verbatim>\<open>json.Marshal\<close>.
\<close>

definition MarshalJSON :: "fmt_rest \<Rightarrow> httpError \<Rightarrow> error + string" where
  "MarshalJSON rest err = Marshal (JStruct [(''err'', JString (Sprintf rest (msg err) (args err)))])"

section \<open>http.ResponseWriter\<close>

text \<open>
  The response as the \<^verbatim>\<open>net/http\<close> server implements the interface for HTTP/1
  (\<^verbatim>\<open>main\<close> serves with \<^verbatim>\<open>http.ListenAndServe\<close>), on a connection the handler has not
  taken over with \<^verbatim>\<open>Hijack\<close>:
  \<^item> \<open>Header\<close> is the header map \<^verbatim>\<open>w.Header()\<close> that the handler mutates;
  \<^item> \<open>status\<close> is the final status line once it has been written, with \<open>sent\<close> the
    header map as it stood then (later changes of the map are not sent);
  \<^item> \<open>contentLength\<close> is the length the handler had declared in the header
    \<^verbatim>\<open>Content-Length\<close> when the final status line was written, \<^term>\<open>None\<close> if it
    declared none (the server's \<^verbatim>\<open>-1\<close>);
  \<^item> \<open>written\<close> counts the bytes handed to \<^verbatim>\<open>Write\<close> for the body;
  \<^item> \<open>informational\<close> lists the 1xx status lines written before the final one;
  \<^item> \<open>body\<close> is what \<^verbatim>\<open>Write\<close> has accepted for the body;
  \<^item> \<open>broken\<close> is the error every \<^verbatim>\<open>Write\<close> returns when the stream to the client has
    failed, \<^term>\<open>None\<close> while it works;
  \<^item> \<open>calls\<close> is the trace of the calls on the writer that returned, in order.
  The headers the server adds or drops by itself when it writes the status line
  (the date, the content type it detects, the length) are not part of the model:
  \<open>sent\<close> holds what the handler put into the header map.
\<close>

datatype rw_call = CallHeaderSet string string | CallWriteHeader int | CallWrite string

record ResponseWriter =
  Header :: "string \<rightharpoonup> string list"
  status :: "int option"
  sent :: "string \<rightharpoonup> string list"
  contentLength :: "nat option"
  written :: nat
  informational :: "int list"
  body :: string
  broken :: "error option"
  calls :: "rw_call list"

text \<open>The response a handler is given: nothing set, nothing written.\<close>

definition newResponse :: "error option \<Rightarrow> ResponseWriter" where
  "newResponse b =
     \<lparr>Header = Map.empty, status = None, sent = Map.empty, contentLength = None,
      written = 0, informational = [], body = [], broken = b, calls = []\<rparr>"

text \<open>
  \<^verbatim>\<open>textproto.CanonicalMIMEHeaderKey\<close>: a key with a byte that is not a token
  character is left as it is; otherwise the first letter and every letter after a
  hyphen are upper case, the other letters lower case.
\<close>

definition validHeaderFieldByte :: "char \<Rightarrow> bool" where
  "validHeaderFieldByte c \<longleftrightarrow>
     (let n = (of_char c :: nat) in
      (0x30 \<le> n \<and> n \<le> 0x39) \<or> (0x41 \<le> n \<and> n \<le> 0x5A) \<or> (0x61 \<le> n \<and> n \<le> 0x7A)
      \<or> c \<in> set [CHR ''!'', CHR ''#'', CHR ''$'', CHR ''%'', CHR ''&'', CHR 0x27, CHR ''*'', CHR ''+'',
                   CHR ''-'', CHR ''.'', CHR ''^'', CHR ''_'', CHR 0x60, CHR ''|'', CHR ''~''])"

fun canonicalCase :: "bool \<Rightarrow> string \<Rightarrow> string" where
  "canonicalCase upper [] = []"
| "canonicalCase upper (c # cs) =
     (let n = (of_char c :: nat);
          c' = (if upper \<and> 0x61 \<le> n \<and> n \<le> 0x7A then char_of (n - 32)
                else if \<not> upper \<and> 0x41 \<le> n \<and> n \<le> 0x5A then char_of (n + 32)
                else c)
      in c' # canonicalCase (c' = CHR ''-'') cs)"

definition CanonicalMIMEHeaderKey :: "string \<Rightarrow> string" where
  "CanonicalMIMEHeaderKey s = (if list_all validHeaderFieldByte s then canonicalCase True s else s)"

text \<open>\<^verbatim>\<open>w.Header().Set(key, value)\<close> and \<^verbatim>\<open>Header.Get(key)\<close>.\<close>

definition Header_Set :: "string \<Rightarrow> string \<Rightarrow> ResponseWriter \<Rightarrow> ResponseWriter" where
  "Header_Set key v w =
     w\<lparr>Header := (Header w)(CanonicalMIMEHeaderKey key \<mapsto> [v]),
       calls := calls w @ [CallHeaderSet key v]\<rparr>"

definition Header_Get :: "(string \<rightharpoonup> string list) \<Rightarrow> string \<Rightarrow> string" where
  "Header_Get h key =
     (case h (CanonicalMIMEHeaderKey key) of None \<Rightarrow> [] | Some [] \<Rightarrow> [] | Some (v # vs) \<Rightarrow> v)"

text \<open>
  \<^verbatim>\<open>strconv.ParseInt(s, 10, 64)\<close>: an optional sign and then decimal digits, at least
  one; \<^term>\<open>None\<close> for a syntax error and for a value outside 64 bits.
\<close>

fun parseDigits :: "string \<Rightarrow> nat \<Rightarrow> nat option" where
  "parseDigits [] acc = Some acc"
| "parseDigits (c # cs) acc =
     (let d = (of_char c :: nat) in
      if 0x30 \<le> d \<and> d \<le> 0x39 then parseDigits cs (10 * acc + (d - 0x30)) else None)"

definition ParseUint :: "string \<Rightarrow> nat option" where
  "ParseUint s = (if s = [] then None else parseDigits s 0)"

definition ParseInt :: "string \<Rightarrow> int option" where
  "ParseInt s =
     (case s of
        [] \<Rightarrow> None
      | c # r \<Rightarrow>
          (let neg = (c = CHR ''-'');
               digits = (if c = CHR ''+'' \<or> c = CHR ''-'' then r else s)
           in case ParseUint digits of
                None \<Rightarrow> None
              | Some un \<Rightarrow>
                  if \<not> neg \<and> 2 ^ 63 \<le> un then None
                  else if neg \<and> 2 ^ 63 < un then None
                  else Some (if neg then - int un else int un)))"

text \<open>
  The length the handler declared: when the final status line is written, the
  server reads the first value of \<^verbatim>\<open>Content-Length\<close> in the header map; a value that
  is empty, does not parse or is negative counts as no declaration.
\<close>

definition declaredLength :: "(string \<rightharpoonup> string list) \<Rightarrow> nat option" where
  "declaredLength h =
     (case h ''Content-Length'' of
        Some (cl # vs) \<Rightarrow>
          (case ParseInt cl of
             Some v \<Rightarrow> if 0 \<le> v then Some (nat v) else None
           | None \<Rightarrow> None)
      | _ \<Rightarrow> None)"

text \<open>
  A declaration that is not empty and does not parse or is negative is invalid: the
  server logs it and deletes \<^verbatim>\<open>Content-Length\<close> from the handler's header map.
\<close>

definition invalidLength :: "(string \<rightharpoonup> string list) \<Rightarrow> bool" where
  "invalidLength h =
     (case h ''Content-Length'' of
        Some (cl # vs) \<Rightarrow>
          cl \<noteq> [] \<and> (case ParseInt cl of Some v \<Rightarrow> v < 0 | None \<Rightarrow> True)
      | _ \<Rightarrow> False)"

text \<open>
  Writing the final status line \<open>c\<close>: the headers set so far are the ones to send;
  then the declared length is read, and deleted from the handler's map if invalid.
\<close>

definition writeStatus :: "int \<Rightarrow> ResponseWriter \<Rightarrow> ResponseWriter" where
  "writeStatus c w =
     w\<lparr>status := Some c, sent := Header w, contentLength := declaredLength (Header w),
       Header := (if invalidLength (Header w) then (Header w)(''Content-Length'' := None)
                  else Header w)\<rparr>"

text \<open>
  \<^verbatim>\<open>w.WriteHeader(code)\<close>. Once the final status line is written a further call is
  ignored. A code outside 100..999 panics (\<^term>\<open>None\<close>). A 1xx code other than 101 is
  an informational status line: it is written and the response stays open for the
  final one. Any other code is the final status line.
\<close>

definition WriteHeader :: "int \<Rightarrow> ResponseWriter \<Rightarrow> ResponseWriter option" where
  "WriteHeader c w =
     (let w = w\<lparr>calls := calls w @ [CallWriteHeader c]\<rparr> in
      if status w \<noteq> None then Some w
      else if c < 100 \<or> 999 < c then None
      else if c \<le> 199 \<and> c \<noteq> 101 then Some (w\<lparr>informational := informational w @ [c]\<rparr>)
      else Some (writeStatus c w))"

text \<open>
  \<^verbatim>\<open>bodyAllowedForStatus\<close>: a response with a 1xx status, 204 or 304 has no body.
  \<^verbatim>\<open>http.ErrBodyNotAllowed\<close> and \<^verbatim>\<open>http.ErrContentLength\<close> are the errors \<^verbatim>\<open>Write\<close>
  returns for a body that is not allowed or longer than declared.
\<close>

definition bodyAllowedForStatus :: "int \<Rightarrow> bool" where
  "bodyAllowedForStatus s \<longleftrightarrow> (s < 100 \<or> 199 < s) \<and> s \<noteq> 204 \<and> s \<noteq> 304"

definition ErrBodyNotAllowed :: error where
  "ErrBodyNotAllowed =
     ErrorString ''http: request method or response status code does not allow body''"

definition ErrContentLength :: error where
  "ErrContentLength = ErrorString ''http: wrote more than the declared Content-Length''"

text \<open>
  \<^verbatim>\<open>w.Write(data)\<close>: if no final status line has been written, status 200 is written
  first. Writing no bytes succeeds. Otherwise, in this order: a status that allows
  no body gives \<^verbatim>\<open>ErrBodyNotAllowed\<close>; the bytes are counted, and a count beyond the
  declared length gives \<^verbatim>\<open>ErrContentLength\<close>; a broken stream gives its error; in
  each of these cases nothing is added to the body. Else the bytes are added.
\<close>

definition Write :: "string \<Rightarrow> ResponseWriter \<Rightarrow> ResponseWriter \<times> error option" where
  "Write data w =
     (let w = w\<lparr>calls := calls w @ [CallWrite data]\<rparr>;
          w = (if status w = None then writeStatus 200 w else w)
      in if data = [] then (w, None)
         else if \<not> bodyAllowedForStatus (case status w of Some s \<Rightarrow> s | None \<Rightarrow> 200)
           then (w, Some ErrBodyNotAllowed)
         else
           (let w = w\<lparr>written := written w + length data\<rparr> in
            if (case contentLength w of None \<Rightarrow> False | Some n \<Rightarrow> n < written w)
              then (w, Some ErrContentLength)
            else (case broken w of
                    Some e \<Rightarrow> (w, Some e)
                  | None \<Rightarrow> (w\<lparr>body := body w @ data\<rparr>, None))))"

text \<open>
  \<^verbatim>\<open>json.NewEncoder(w).Encode(err)\<close> for an \<^verbatim>\<open>*httpError\<close>: the value implements
  \<^verbatim>\<open>json.Marshaler\<close>, so the encoder calls its \<^verbatim>\<open>MarshalJSON\<close>. An error of that call
  is returned wrapped in a \<^verbatim>\<open>MarshalerError\<close> and nothing is written. Otherwise the
  encoder appends a newline and hands the bytes to the writer in one \<^verbatim>\<open>Write\<close>, whose
  error it returns. (The encoder also compacts what \<^verbatim>\<open>MarshalJSON\<close> returns; the
  output of \<^verbatim>\<open>json.Marshal\<close> is compact already.)
\<close>

definition Encoder_Encode :: "fmt_rest \<Rightarrow> ResponseWriter \<Rightarrow> httpError \<Rightarrow> ResponseWriter \<times> error option" where
  "Encoder_Encode rest w err =
     (case MarshalJSON rest err of
        Inl e \<Rightarrow>
          (w, Some (ErrorString
                 (''json: error calling MarshalJSON for type *main.httpError: '' @ Error e)))
      | Inr b \<Rightarrow> Write (b @ [CHR 0x0A]) w)"

section \<open>The api\<close>

text \<open>
  \<^verbatim>\<open>type api struct { mux *http.ServeMux; log *log.Logger }\<close>. The logger is the list
  of messages it has been given, oldest first: each \<^verbatim>\<open>a.log.Printf(format, v...)\<close>
  adds \<^verbatim>\<open>fmt.Sprintf(format, v...)\<close>. (The logger writes each with its prefix, time
  stamp and source position in front, on a line of its own.) The mux is the
  routing table below.
\<close>

record api =
  log :: "string list"

definition Printf :: "fmt_rest \<Rightarrow> string \<Rightarrow> fval list \<Rightarrow> api \<Rightarrow> api" where
  "Printf rest format v a = a\<lparr>log := log a @ [Sprintf rest format v]\<rparr>"

text \<open>
  How a handler ends: it returns, or it panics (the server recovers the panic and
  drops the connection). Both carry the api and the response as the handler left
  them.
\<close>

datatype outcome = Returns api ResponseWriter | Panics api ResponseWriter

fun returns :: "outcome \<Rightarrow> bool" where
  "returns (Returns a w) = True"
| "returns (Panics a w) = False"

fun api_of :: "outcome \<Rightarrow> api" where
  "api_of (Returns a w) = a"
| "api_of (Panics a w) = a"

fun rw_of :: "outcome \<Rightarrow> ResponseWriter" where
  "rw_of (Returns a w) = w"
| "rw_of (Panics a w) = w"

text \<open>
  \<^verbatim>\<open>func (a *api) error(w http.ResponseWriter, err *httpError)\<close>. The state is the api
  (its logger) and the response; the outcome of \<^verbatim>\<open>rand.Read\<close> is the input \<open>rnd\<close>.
  The source's variable \<^verbatim>\<open>id\<close> is \<open>errID\<close> here.
\<close>

definition api_error :: "fmt_rest \<Rightarrow> random \<Rightarrow> api \<Rightarrow> ResponseWriter \<Rightarrow> httpError \<Rightarrow> outcome" where
  "api_error rest rnd a w err =
     (case genUUID rest rnd of
        None \<Rightarrow> Panics a w
      | Some (errID, genErr) \<Rightarrow>
          (let a = (case genErr of
                      Some g \<Rightarrow>
                        Printf rest ''genErr=%v, msg=%q''
                          [VError g, VString ''error while reporting API error''] a
                    | None \<Rightarrow> a);
               w = Header_Set ''X-Errid'' errID w
           in case WriteHeader (code err) w of
                None \<Rightarrow> Panics a w
              | Some w \<Rightarrow>
                  (let (w, encodeErr) = Encoder_Encode rest w err in
                   case encodeErr of
                     Some e \<Rightarrow>
                       Returns
                         (Printf rest ''errID=%q, err=%v, encodeErr=%v, msg=%v''
                            [VString errID, VHTTPError (error err), VError e,
                             VString ''error while reporting API error''] a)
                         w
                   | None \<Rightarrow>
                       Returns
                         (Printf rest ''errID=%q, err=%v''
                            [VString errID, VHTTPError (error err)] a)
                         w)))"

section \<open>Handlers and routes\<close>

definition errBroken :: error where
  "errBroken = ErrorString ''server broken''"

definition defaultHandler :: "api \<Rightarrow> ResponseWriter \<Rightarrow> outcome" where
  "defaultHandler a w = Returns a w"

definition healthzHandler :: "api \<Rightarrow> ResponseWriter \<Rightarrow> outcome" where
  "healthzHandler a w = Returns a w"

definition exampleHandler :: "fmt_rest \<Rightarrow> random \<Rightarrow> api \<Rightarrow> ResponseWriter \<Rightarrow> outcome" where
  "exampleHandler rest rnd a w =
     api_error rest rnd a w
       (error500 (Some (Errorf rest ''exampleHandler: %v'' [VError errBroken])))"

text \<open>
  The routes \<^verbatim>\<open>main\<close> registers, and \<^verbatim>\<open>ServeMux\<close>'s choice for a request path: the
  pattern equal to the path, else the longest pattern that ends in a slash and is a
  prefix of the path, else the not-found handler.
\<close>

datatype route = RouteDefault | RouteHealthz | RouteExample

definition routes :: "(string \<times> route) list" where
  "routes = [(''/'', RouteDefault), (''/healthz'', RouteHealthz), (''/example'', RouteExample)]"

fun longestSubtree :: "(string \<times> route) list \<Rightarrow> string \<Rightarrow> (string \<times> route) option" where
  "longestSubtree [] path = None"
| "longestSubtree ((p, h) # rs) path =
     (let r = longestSubtree rs path in
      if p \<noteq> [] \<and> last p = CHR ''/'' \<and> take (length p) path = p
         \<and> (case r of None \<Rightarrow> True | Some (q, _) \<Rightarrow> length q < length p)
      then Some (p, h) else r)"

definition mux_Handler :: "string \<Rightarrow> route option" where
  "mux_Handler path =
     (case map_of routes path of
        Some h \<Rightarrow> Some h
      | None \<Rightarrow> map_option snd (longestSubtree routes path))"

definition ServeHTTP :: "fmt_rest \<Rightarrow> random \<Rightarrow> api \<Rightarrow> ResponseWriter \<Rightarrow> string \<Rightarrow> outcome" where
  "ServeHTTP rest rnd a w path =
     (case mux_Handler path of
        Some RouteDefault \<Rightarrow> defaultHandler a w
      | Some RouteHealthz \<Rightarrow> healthzHandler a w
      | Some RouteExample \<Rightarrow> exampleHandler rest rnd a w
      | None \<Rightarrow>
          (case WriteHeader 404 w of
             None \<Rightarrow> Panics a w
           | Some w \<Rightarrow> Returns a (fst (Write (''404 page not found'' @ [CHR 0x0A]) w))))"

text \<open>\<^verbatim>\<open>strings.Contains(s, substr)\<close>, to say that a text does not occur in an output.\<close>

fun Contains :: "string \<Rightarrow> string \<Rightarrow> bool" where
  "Contains [] substr = (substr = [])"
| "Contains (c # s) substr = (take (length substr) (c # s) = substr \<or> Contains s substr)"

section \<open>Hexadecimal digits\<close>

lemma unat_hi: "unat (drop_bit 4 (v :: byte)) = unat v div 16"
  by (simp add: unat_drop_bit_eq drop_bit_eq_div unat_div)

lemma and15: "(v :: byte) AND 0x0f = take_bit 4 v"
proof -
  have "(0x0f :: byte) = mask 4" by (simp add: mask_eq_exp_minus_1)
  then show ?thesis by (simp only: take_bit_eq_mask)
qed

lemma unat_lo: "unat ((v :: byte) AND 0x0f) = unat v mod 16"
  by (simp only: and15) (simp add: unsigned_take_bit_eq take_bit_eq_mod unat_mod)

lemma nibble_hi: "unat (drop_bit 4 (v :: byte)) < 16"
proof -
  have "unat v < 256"
    using unsigned_less [of v, where 'a = nat] by simp
  then show ?thesis by (simp add: unat_hi)
qed

lemma nibble_lo: "unat ((v :: byte) AND 0x0f) < 16"
  by (simp add: unat_lo)

lemma nibbles: "(of_nat (16 * unat (drop_bit 4 (v :: byte)) + unat (v AND 0x0f)) :: byte) = v"
proof -
  have "16 * unat (drop_bit 4 v) + unat (v AND 0x0f) = unat v"
    by (simp only: unat_hi unat_lo) simp
  then show ?thesis by simp
qed

lemma hextable_in: "n < 16 \<Longrightarrow> hextable ! n \<in> set hextable"
  by (rule nth_mem) (simp add: hextable_def)

lemma fromHexChar_hextable:
  assumes "n < 16"
  shows "fromHexChar (hextable ! n) = Some n"
proof -
  have "\<forall>k \<in> set [0..<16]. fromHexChar (hextable ! k) = Some k"
    by (simp add: upt_rec hextable_def fromHexChar_def)
  with assms show ?thesis by simp
qed

lemma DecodeString_EncodeToString: "DecodeString (EncodeToString src) = Some src"
  by (induction src)
     (simp_all add: EncodeToString_def fromHexChar_hextable nibble_hi nibble_lo nibbles
        del: of_nat_add of_nat_mult)

lemma length_EncodeToString: "length (EncodeToString src) = 2 * length src"
  by (induction src) (simp_all add: EncodeToString_def)

lemma hex_EncodeToString: "list_all (\<lambda>c. c \<in> set hextable) (EncodeToString src)"
  by (induction src) (simp_all add: EncodeToString_def hextable_in nibble_hi nibble_lo)

section \<open>The correlation identifier\<close>

lemma genUUID_RandBytes:
  "genUUID rest (RandBytes f) =
     Some (EncodeToString (map f [0..<4]) @ ''-'' @ EncodeToString (map f [4..<6]) @ ''-'' @
           EncodeToString (map f [6..<8]) @ ''-'' @ EncodeToString (map f [8..<10]) @ ''-'' @
           EncodeToString (map f [10..<16]), None)"
  by (simp add: genUUID_def Encode_def slice_def EncodeToString_def upt_rec numeral_eq_Suc)

lemma Sprintf_genUUID:
  "Sprintf rest ''genUUID: %v'' [VError g] = ''genUUID: '' @ Error g"
  by (simp add: Sprintf_def fmtString_def extra_def)

lemma genUUID_RandFail:
  "genUUID rest (RandFail g) = Some ([], Some (ErrorString (''genUUID: '' @ Error g)))"
  by (simp add: genUUID_def Errorf_def Sprintf_genUUID)

lemma EncodeToString_append:
  "EncodeToString (xs @ ys) = EncodeToString xs @ EncodeToString ys"
  by (simp add: EncodeToString_def)

lemma filter_hex:
  "list_all (\<lambda>c. c \<in> set hextable) xs \<Longrightarrow> filter (\<lambda>c. c \<noteq> CHR ''-'') xs = xs"
  by (induction xs) (auto simp: hextable_def)

lemma nth_hex:
  "i < length (EncodeToString src) \<Longrightarrow> EncodeToString src ! i \<in> set ''0123456789abcdef''"
  using hex_EncodeToString [of src] by (simp add: list_all_length hextable_def)

text \<open>
  Claim C2. Every identifier that \<^verbatim>\<open>genUUID\<close> returns without an error has length 36,
  has a hyphen at each of the offsets 8, 13, 18 and 23, has a character of
  \<^verbatim>\<open>0123456789abcdef\<close> at every other offset, and its 32 hexadecimal characters are the
  encoding of the 16 bytes that \<^verbatim>\<open>rand.Read\<close> put into \<^verbatim>\<open>u\<close>: decoding them gives those
  bytes back.
\<close>

theorem genUUID_shape:
  assumes "genUUID rest rnd = Some (s, None)"
  shows "length s = 36
       \<and> s ! 8 = CHR ''-'' \<and> s ! 13 = CHR ''-'' \<and> s ! 18 = CHR ''-'' \<and> s ! 23 = CHR ''-''
       \<and> (\<forall>i<36. i \<notin> {8, 13, 18, 23} \<longrightarrow> s ! i \<in> set ''0123456789abcdef'')
       \<and> (\<exists>f. rnd = RandBytes f
             \<and> filter (\<lambda>c. c \<noteq> CHR ''-'') s = EncodeToString (map f [0..<16])
             \<and> DecodeString (filter (\<lambda>c. c \<noteq> CHR ''-'') s) = Some (map f [0..<16]))"
proof -
  obtain f where rnd: "rnd = RandBytes f"
    using assms by (cases rnd) (simp_all add: genUUID_RandFail)
  define A where "A = EncodeToString (map f [0..<4])"
  define B where "B = EncodeToString (map f [4..<6])"
  define C where "C = EncodeToString (map f [6..<8])"
  define D where "D = EncodeToString (map f [8..<10])"
  define E where "E = EncodeToString (map f [10..<16])"
  have s: "s = A @ ''-'' @ B @ ''-'' @ C @ ''-'' @ D @ ''-'' @ E"
    using assms unfolding rnd genUUID_RandBytes A_def B_def C_def D_def E_def by simp
  have len: "length A = 8" "length B = 4" "length C = 4" "length D = 4" "length E = 12"
    by (simp_all add: A_def B_def C_def D_def E_def length_EncodeToString)
  have hex: "\<And>i. i < 8 \<Longrightarrow> A ! i \<in> set ''0123456789abcdef''"
    "\<And>i. i < 4 \<Longrightarrow> B ! i \<in> set ''0123456789abcdef''"
    "\<And>i. i < 4 \<Longrightarrow> C ! i \<in> set ''0123456789abcdef''"
    "\<And>i. i < 4 \<Longrightarrow> D ! i \<in> set ''0123456789abcdef''"
    "\<And>i. i < 12 \<Longrightarrow> E ! i \<in> set ''0123456789abcdef''"
    using nth_hex len unfolding A_def B_def C_def D_def E_def by metis+
  have l: "length s = 36"
    by (simp add: s len)
  have h: "s ! 8 = CHR ''-''" "s ! 13 = CHR ''-''" "s ! 18 = CHR ''-''" "s ! 23 = CHR ''-''"
    by (simp_all add: s len nth_append)
  have o: "s ! i \<in> set ''0123456789abcdef''" if "i < 36" "i \<notin> {8, 13, 18, 23}" for i
  proof -
    have "i \<noteq> 8" "i \<noteq> 13" "i \<noteq> 18" "i \<noteq> 23"
      using that(2) by simp_all
    then have "i < 8 \<or> (9 \<le> i \<and> i < 13) \<or> (14 \<le> i \<and> i < 18) \<or> (19 \<le> i \<and> i < 23)
      \<or> (24 \<le> i \<and> i < 36)"
      using that(1) by arith
    then consider "i < 8" | "9 \<le> i \<and> i < 13" | "14 \<le> i \<and> i < 18" | "19 \<le> i \<and> i < 23"
      | "24 \<le> i \<and> i < 36"
      by blast
    then show ?thesis
    proof cases
      case 1
      then show ?thesis using hex(1) [of i] by (simp add: s len nth_append)
    next
      case 2
      then have "s ! i = B ! (i - 9)" by (auto simp: s len nth_append nth_Cons')
      moreover have "i - 9 < 4" using 2 by arith
      ultimately show ?thesis using hex(2) [of "i - 9"] by simp
    next
      case 3
      then have "s ! i = C ! (i - 14)" by (auto simp: s len nth_append nth_Cons')
      moreover have "i - 14 < 4" using 3 by arith
      ultimately show ?thesis using hex(3) [of "i - 14"] by simp
    next
      case 4
      then have "s ! i = D ! (i - 19)" by (auto simp: s len nth_append nth_Cons')
      moreover have "i - 19 < 4" using 4 by arith
      ultimately show ?thesis using hex(4) [of "i - 19"] by simp
    next
      case 5
      then have "s ! i = E ! (i - 24)" by (auto simp: s len nth_append nth_Cons')
      moreover have "i - 24 < 12" using 5 by arith
      ultimately show ?thesis using hex(5) [of "i - 24"] by simp
    qed
  qed
  have all: "list_all (\<lambda>c. c \<in> set hextable) (A @ B @ C @ D @ E)"
    by (simp add: A_def B_def C_def D_def E_def hex_EncodeToString)
  have "filter (\<lambda>c. c \<noteq> CHR ''-'') s = A @ B @ C @ D @ E"
    using all by (simp add: s filter_hex)
  also have "\<dots> = EncodeToString (map f ([0..<4] @ [4..<6] @ [6..<8] @ [8..<10] @ [10..<16]))"
    by (simp only: A_def B_def C_def D_def E_def EncodeToString_append map_append)
  also have "[0..<4] @ [4..<6] @ [6..<8] @ [8..<10] @ [10..<16] = [0..<16::nat]"
    by (simp add: upt_rec)
  finally have enc: "filter (\<lambda>c. c \<noteq> CHR ''-'') s = EncodeToString (map f [0..<16])" .
  have dec: "DecodeString (filter (\<lambda>c. c \<noteq> CHR ''-'') s) = Some (map f [0..<16])"
    by (simp only: enc DecodeString_EncodeToString)
  show ?thesis
    using l h o rnd enc dec by blast
qed

theorem genUUID_shape_witness:
  "genUUID (\<lambda>format a. []) (RandBytes (\<lambda>i. of_nat (17 * i + 3)))
     = Some (''03142536-4758-697a-8b9c-adbecfe0f102'', None)
   \<and> length ''03142536-4758-697a-8b9c-adbecfe0f102'' = 36
   \<and> ''03142536-4758-697a-8b9c-adbecfe0f102'' ! 8 = CHR ''-''
   \<and> DecodeString (filter (\<lambda>c. c \<noteq> CHR ''-'') ''03142536-4758-697a-8b9c-adbecfe0f102'')
       = Some (map (\<lambda>i. of_nat (17 * i + 3)) [0..<16])"
proof -
  have g: "genUUID (\<lambda>format a. []) (RandBytes (\<lambda>i. of_nat (17 * i + 3)))
     = Some (''03142536-4758-697a-8b9c-adbecfe0f102'', None)"
    by code_simp
  note r = genUUID_shape [OF g]
  from r have c: "length ''03142536-4758-697a-8b9c-adbecfe0f102'' = 36"
    "''03142536-4758-697a-8b9c-adbecfe0f102'' ! 8 = CHR ''-''"
    by blast+
  from r obtain f where f: "RandBytes (\<lambda>i. of_nat (17 * i + 3)) = RandBytes f"
    and d: "DecodeString (filter (\<lambda>c. c \<noteq> CHR ''-'') ''03142536-4758-697a-8b9c-adbecfe0f102'')
       = Some (map f [0..<16])"
    by blast
  from f have "f = (\<lambda>i. of_nat (17 * i + 3))"
    by (simp only: random.inject)
  with g c d show ?thesis
    by (simp only: simp_thms)
qed

section \<open>Formatting the log lines\<close>

lemma genUUID_total: "\<exists>errID genErr. genUUID rest rnd = Some (errID, genErr)"
  by (cases rnd) (simp_all add: genUUID_RandFail genUUID_RandBytes)

lemma genUUID_plain:
  assumes "genUUID rest rnd = Some (errID, genErr)"
  shows "list_all (\<lambda>c. c \<in> set ''0123456789abcdef-'') errID"
proof (cases rnd)
  case (RandFail g)
  with assms show ?thesis by (simp add: genUUID_RandFail)
next
  case (RandBytes f)
  have "list_all (\<lambda>c. c \<in> set ''0123456789abcdef-'') (EncodeToString src)" for src
    using hex_EncodeToString [of src] by (rule list.pred_mono_strong) (auto simp: hextable_def)
  with assms RandBytes show ?thesis
    by (auto simp: genUUID_RandBytes)
qed

lemma plain_ascii:
  "list_all (\<lambda>c. c \<in> set ''0123456789abcdef-'') s \<Longrightarrow> list_all (\<lambda>c. (of_char c :: nat) < 0x80) s"
  by (induction s) auto

lemma plain_escape:
  "list_all (\<lambda>c. c \<in> set ''0123456789abcdef-'') s \<Longrightarrow> concat (map appendEscapedRune s) = s"
  by (induction s) (auto simp: appendEscapedRune_def)

lemma Quote_plain:
  "list_all (\<lambda>c. c \<in> set ''0123456789abcdef-'') s \<Longrightarrow> Quote s = Some ([CHR 0x22] @ s @ [CHR 0x22])"
  by (simp add: Quote_def plain_ascii plain_escape)

text \<open>What \<^verbatim>\<open>%v\<close> prints for an \<^verbatim>\<open>*httpError\<close>.\<close>

lemma Sprintf_genErr:
  \<open>Sprintf rest ''genErr=%v, msg=%q'' [VError g, VString ''error while reporting API error'']
     = ''genErr='' @ Error g @ '', msg="error while reporting API error"''\<close>
  by (simp add: Sprintf_def fmtString_def extra_def Quote_def appendEscapedRune_def)

lemma Sprintf_errID:
  assumes "list_all (\<lambda>c. c \<in> set ''0123456789abcdef-'') errID"
  shows \<open>Sprintf rest ''errID=%q, err=%v'' [VString errID, VHTTPError c]
     = ''errID="'' @ errID @ ''", err='' @
       (case c of None \<Rightarrow> catchPanic CHR ''v'' | Some e \<Rightarrow> Error e)\<close>
  using assms
  by (cases c) (simp_all add: Sprintf_def fmtString_def extra_def Quote_plain)

lemma Sprintf_encodeErr:
  assumes "list_all (\<lambda>c. c \<in> set ''0123456789abcdef-'') errID"
  shows \<open>Sprintf rest ''errID=%q, err=%v, encodeErr=%v, msg=%v''
            [VString errID, VHTTPError c, VError x, VString ''error while reporting API error'']
     = ''errID="'' @ errID @ ''", err='' @
       (case c of None \<Rightarrow> catchPanic CHR ''v'' | Some e \<Rightarrow> Error e) @
       '', encodeErr='' @ Error x @ '', msg=error while reporting API error''\<close>
  using assms
  by (cases c) (simp_all add: Sprintf_def fmtString_def extra_def Quote_plain)

lemma MarshalJSON_eq:
  \<open>MarshalJSON rest err = Inr (''{"err":'' @ appendString (Sprintf rest (msg err) (args err)) @ ''}'')\<close>
  by (simp add: MarshalJSON_def)

section \<open>The JSON encoding of a string has no newline\<close>

lemma lowerhex_not_nl: "n < 16 \<Longrightarrow> lowerhex ! n \<noteq> CHR 0x0A"
proof -
  assume "n < 16"
  then have "lowerhex ! n \<in> set lowerhex"
    by (intro nth_mem) (simp add: lowerhex_def)
  then show ?thesis by (auto simp: lowerhex_def)
qed

lemma of_char_lt_256: "(of_char (c :: char) :: nat) < 256"
  by (cases c) simp

lemma escapeByte_no_newline: "CHR 0x0A \<notin> set (escapeByte b)"
proof -
  have "(of_char b :: nat) div 16 < 16"
    using of_char_lt_256 [of b] by (intro less_mult_imp_div_less) simp
  then have hi: "lowerhex ! ((of_char b :: nat) div 16) \<noteq> CHR 0x0A"
    by (rule lowerhex_not_nl)
  have lo: "lowerhex ! ((of_char b :: nat) mod 16) \<noteq> CHR 0x0A"
    by (rule lowerhex_not_nl) simp
  from hi lo show ?thesis
    by (auto simp: escapeByte_def Let_def)
qed

lemma htmlSafe_not_newline: "htmlSafeSet b \<Longrightarrow> b \<noteq> CHR 0x0A"
  by (auto simp: htmlSafeSet_def)

lemma accept_lo_ge: "0x80 \<le> accept_lo s0"
  by (simp add: accept_lo_def)

lemma Decode_cont:
  "\<forall>c \<in> set (take (snd (DecodeRuneInString (b # src)) - 1) src). 0x80 \<le> (of_char c :: nat)"
proof (cases src)
  case Nil
  then show ?thesis by simp
next
  case c1: (Cons c1 s1)
  show ?thesis
  proof (cases s1)
    case Nil
    with c1 accept_lo_ge [of "of_char b"] show ?thesis
      by (auto simp: DecodeRuneInString_def Let_def)
  next
    case c2: (Cons c2 s2)
    show ?thesis
    proof (cases s2)
      case Nil
      with c1 c2 accept_lo_ge [of "of_char b"] show ?thesis
        by (auto simp: DecodeRuneInString_def Let_def)
    next
      case c3: (Cons c3 s3)
      with c1 c2 accept_lo_ge [of "of_char b"] show ?thesis
        by (auto simp: DecodeRuneInString_def Let_def)
    qed
  qed
qed

lemma appendString_loop_no_newline: "CHR 0x0A \<notin> set (appendString_loop s)"
proof (induction s rule: appendString_loop.induct)
  case 1
  then show ?case by simp
next
  case (2 b src)
  show ?case
  proof (cases "(of_char b :: nat) < 0x80")
    case True
    with 2 show ?thesis
      by (auto simp: escapeByte_no_newline dest: htmlSafe_not_newline)
  next
    case False
    then have b: "b \<noteq> CHR 0x0A" by auto
    have c: "CHR 0x0A \<notin> set (take (snd (DecodeRuneInString (b # src)) - 1) src)"
      using Decode_cont [of b src] by fastforce
    have d: "lowerhex ! (fst (DecodeRuneInString (b # src)) mod 16) \<noteq> CHR 0x0A"
      by (rule lowerhex_not_nl) simp
    from False 2 b c d show ?thesis
      by (simp add: Let_def)
  qed
qed

lemma appendString_no_newline: "CHR 0x0A \<notin> set (appendString s)"
  by (simp add: appendString_def appendString_loop_no_newline)

section \<open>The error reporter, step by step\<close>

lemma canonical_X_Errid: "CanonicalMIMEHeaderKey ''X-Errid'' = ''X-Errid''"
  by (simp add: CanonicalMIMEHeaderKey_def validHeaderFieldByte_def Let_def)

lemma Header_Set_simps:
  "Header (Header_Set key v w) = (Header w)(CanonicalMIMEHeaderKey key \<mapsto> [v])"
  "calls (Header_Set key v w) = calls w @ [CallHeaderSet key v]"
  "status (Header_Set key v w) = status w"
  "sent (Header_Set key v w) = sent w"
  "contentLength (Header_Set key v w) = contentLength w"
  "written (Header_Set key v w) = written w"
  "informational (Header_Set key v w) = informational w"
  "body (Header_Set key v w) = body w"
  "broken (Header_Set key v w) = broken w"
  by (simp_all add: Header_Set_def)

lemma declaredLength_invalid:
  "declaredLength (if invalidLength h then h(''Content-Length'' := None) else h) = declaredLength h"
  by (auto simp: declaredLength_def invalidLength_def split: option.splits list.splits)

lemma writeStatus_simps:
  "Header (writeStatus c w) k =
     (if k = ''Content-Length'' \<and> invalidLength (Header w) then None else Header w k)"
  "declaredLength (Header (writeStatus c w)) = declaredLength (Header w)"
  "calls (writeStatus c w) = calls w"
  "status (writeStatus c w) = Some c"
  "sent (writeStatus c w) = Header w"
  "contentLength (writeStatus c w) = declaredLength (Header w)"
  "written (writeStatus c w) = written w"
  "informational (writeStatus c w) = informational w"
  "body (writeStatus c w) = body w"
  "broken (writeStatus c w) = broken w"
  by (simp_all add: writeStatus_def declaredLength_invalid)

lemma WriteHeader_None_iff:
  "WriteHeader c w = None \<longleftrightarrow> status w = None \<and> (c < 100 \<or> 999 < c)"
  by (auto simp: WriteHeader_def Let_def)

lemma WriteHeader_Some:
  assumes "WriteHeader c w = Some w'"
  shows "Header w' k =
      (if k = ''Content-Length'' \<and> status w = None \<and> \<not> (c \<le> 199 \<and> c \<noteq> 101)
          \<and> invalidLength (Header w)
       then None else Header w k)"
    "status w \<noteq> None \<or> (c \<le> 199 \<and> c \<noteq> 101) \<Longrightarrow> Header w' = Header w"
    "declaredLength (Header w') = declaredLength (Header w)"
    "body w' = body w" "broken w' = broken w"
    "written w' = written w"
    "calls w' = calls w @ [CallWriteHeader c]"
    "status w' = (if status w \<noteq> None then status w
                  else if c \<le> 199 \<and> c \<noteq> 101 then None else Some c)"
    "sent w' = (if status w \<noteq> None \<or> (c \<le> 199 \<and> c \<noteq> 101) then sent w else Header w)"
    "contentLength w' = (if status w \<noteq> None \<or> (c \<le> 199 \<and> c \<noteq> 101) then contentLength w
                         else declaredLength (Header w))"
  using assms by (auto simp: WriteHeader_def Let_def writeStatus_simps split: if_splits)

text \<open>
  The error of a \<^verbatim>\<open>Write\<close>, from the response it is called on: the status and the
  declared length are those of the status line, which the call writes itself (200)
  if it is the first.
\<close>

lemma Write_error:
  "snd (Write d w) =
     (if d = [] then None
      else if \<not> bodyAllowedForStatus (case status w of Some s \<Rightarrow> s | None \<Rightarrow> 200)
        then Some ErrBodyNotAllowed
      else if (case (if status w = None then declaredLength (Header w) else contentLength w) of
                 None \<Rightarrow> False | Some n \<Rightarrow> n < written w + length d)
        then Some ErrContentLength
      else broken w)"
  by (cases "status w"; cases "broken w")
     (simp_all add: Write_def Let_def writeStatus_simps split: option.split)

lemma Write_simps:
  "Header (fst (Write d w)) k =
     (if k = ''Content-Length'' \<and> status w = None \<and> invalidLength (Header w) then None
      else Header w k)"
  "broken (fst (Write d w)) = broken w"
  "calls (fst (Write d w)) = calls w @ [CallWrite d]"
  "body (fst (Write d w)) = body w @ (if snd (Write d w) = None then d else [])"
  "status (fst (Write d w)) = (if status w = None then Some 200 else status w)"
  "sent (fst (Write d w)) = (if status w = None then Header w else sent w)"
  by (cases "status w"; cases "broken w";
      simp add: Write_def Let_def writeStatus_simps split: option.split)+

lemma Encoder_Encode_eq:
  \<open>Encoder_Encode rest w err =
     Write (''{"err":'' @ appendString (Sprintf rest (msg err) (args err)) @ ''}'' @ [CHR 0x0A]) w\<close>
  by (simp add: Encoder_Encode_def MarshalJSON_eq)

lemma api_error_eq:
  assumes gen: "genUUID rest rnd = Some (errID, genErr)"
  shows \<open>api_error rest rnd a w e =
     (case WriteHeader (code e) (Header_Set ''X-Errid'' errID w) of
        None \<Rightarrow>
          Panics
            (a\<lparr>log := log a @
               (case genErr of None \<Rightarrow> []
                | Some g \<Rightarrow> [''genErr='' @ Error g @ '', msg="error while reporting API error"''])\<rparr>)
            (Header_Set ''X-Errid'' errID w)
      | Some w2 \<Rightarrow>
          Returns
            (a\<lparr>log := log a @
               (case genErr of None \<Rightarrow> []
                | Some g \<Rightarrow> [''genErr='' @ Error g @ '', msg="error while reporting API error"''])
               @ [''errID="'' @ errID @ ''", err='' @
                  (case error e of None \<Rightarrow> catchPanic CHR ''v'' | Some c \<Rightarrow> Error c) @
                  (case snd (Encoder_Encode rest w2 e) of None \<Rightarrow> []
                   | Some x \<Rightarrow> '', encodeErr='' @ Error x @ '', msg=error while reporting API error'')]\<rparr>)
            (fst (Encoder_Encode rest w2 e)))\<close>
proof (cases "WriteHeader (code e) (Header_Set ''X-Errid'' errID w)")
  case None
  then show ?thesis
    by (cases genErr) (simp_all add: api_error_def gen Printf_def Sprintf_genErr)
next
  case (Some w2)
  note plain = genUUID_plain [OF gen]
  show ?thesis
    by (cases genErr; cases "snd (Encoder_Encode rest w2 e)")
       (simp_all add: api_error_def gen Some case_prod_beta
          Printf_def Sprintf_genErr Sprintf_errID [OF plain] Sprintf_encodeErr [OF plain])
qed

lemma api_error_returns_iff:
  "returns (api_error rest rnd a w e) \<longleftrightarrow> status w \<noteq> None \<or> (100 \<le> code e \<and> code e \<le> 999)"
proof -
  obtain errID genErr where gen: "genUUID rest rnd = Some (errID, genErr)"
    using genUUID_total by blast
  show ?thesis
    using WriteHeader_None_iff [of "code e" "Header_Set ''X-Errid'' errID w"]
    by (cases "WriteHeader (code e) (Header_Set ''X-Errid'' errID w)")
       (auto simp: api_error_eq [OF gen] Header_Set_simps)
qed

lemma api_error_Returns:
  assumes ok: "status w \<noteq> None \<or> (100 \<le> code e \<and> code e \<le> 999)"
  obtains w2 where "WriteHeader (code e) (Header_Set ''X-Errid'' errID w) = Some w2"
proof (cases "WriteHeader (code e) (Header_Set ''X-Errid'' errID w)")
  case None
  then show ?thesis
    using ok WriteHeader_None_iff [of "code e" "Header_Set ''X-Errid'' errID w"]
    by (auto simp: Header_Set_simps)
next
  case (Some w2)
  then show ?thesis by (rule that)
qed

text \<open>
  On a response the handler has not written to and for which it has declared no
  length, the encoder's error is the writer's refusal of a body for the statuses
  101, 204 and 304, and else the stream's error, if any.
\<close>

lemma declaredLength_X_Errid:
  "Header w ''Content-Length'' = None \<Longrightarrow>
     declaredLength ((Header w)(''X-Errid'' \<mapsto> [v])) = None"
  by (simp add: declaredLength_def)

lemma Encode_error_fresh:
  assumes st: "status w = None" and cl: "Header w ''Content-Length'' = None"
    and w2: "WriteHeader (code e) (Header_Set ''X-Errid'' errID w) = Some w2"
  shows "snd (Encoder_Encode rest w2 e) =
     (if code e = 101 \<or> code e = 204 \<or> code e = 304 then Some ErrBodyNotAllowed else broken w)"
proof -
  have c: "100 \<le> code e" "code e \<le> 999"
    using w2 WriteHeader_None_iff [of "code e" "Header_Set ''X-Errid'' errID w"] st
    by (auto simp: Header_Set_simps)
  show ?thesis
    using st c
    by (auto simp: Encoder_Encode_eq Write_error WriteHeader_Some [OF w2] Header_Set_simps
          canonical_X_Errid declaredLength_X_Errid [OF cl] bodyAllowedForStatus_def)
qed

lemma api_error_status:
  assumes "status w = None" "100 \<le> code e" "code e \<le> 999"
  shows "status (rw_of (api_error rest rnd a w e)) = Some (if code e < 200 \<and> code e \<noteq> 101 then 200 else code e)"
proof -
  obtain errID genErr where gen: "genUUID rest rnd = Some (errID, genErr)"
    using genUUID_total by blast
  have ok: "status w \<noteq> None \<or> (100 \<le> code e \<and> code e \<le> 999)"
    using assms by simp
  obtain w2 where w2: "WriteHeader (code e) (Header_Set ''X-Errid'' errID w) = Some w2"
    using ok by (rule api_error_Returns)
  show ?thesis
    using assms
    by (auto simp: api_error_eq [OF gen] w2 Encoder_Encode_eq Write_simps WriteHeader_Some [OF w2]
          Header_Set_simps)
qed

lemma api_error_sent:
  assumes gen: "genUUID rest rnd = Some (errID, genErr)"
    and "status w = None" "100 \<le> code e" "code e \<le> 999"
  shows "sent (rw_of (api_error rest rnd a w e)) = (Header w)(''X-Errid'' \<mapsto> [errID])"
proof -
  have ok: "status w \<noteq> None \<or> (100 \<le> code e \<and> code e \<le> 999)"
    using assms by simp
  obtain w2 where w2: "WriteHeader (code e) (Header_Set ''X-Errid'' errID w) = Some w2"
    using ok by (rule api_error_Returns)
  show ?thesis
    using assms
    by (simp add: api_error_eq [OF gen] w2 Encoder_Encode_eq Write_simps WriteHeader_Some [OF w2]
          Header_Set_simps canonical_X_Errid)
qed

lemma api_error_body_fresh:
  assumes st: "status w = None" and cl: "Header w ''Content-Length'' = None"
    and c: "100 \<le> code e" "code e \<le> 999"
  shows \<open>body (rw_of (api_error rest rnd a w e)) =
     body w @
     (if code e \<noteq> 101 \<and> code e \<noteq> 204 \<and> code e \<noteq> 304 \<and> broken w = None
      then ''{"err":'' @ appendString (Sprintf rest (msg e) (args e)) @ ''}'' @ [CHR 0x0A]
      else [])\<close>
proof -
  obtain errID genErr where gen: "genUUID rest rnd = Some (errID, genErr)"
    using genUUID_total by blast
  have ok: "status w \<noteq> None \<or> (100 \<le> code e \<and> code e \<le> 999)"
    using c by simp
  obtain w2 where w2: "WriteHeader (code e) (Header_Set ''X-Errid'' errID w) = Some w2"
    using ok by (rule api_error_Returns)
  have "body (rw_of (api_error rest rnd a w e)) =
      body w @ (if snd (Encoder_Encode rest w2 e) = None
        then ''{\"err\":'' @ appendString (Sprintf rest (msg e) (args e)) @ ''}'' @ [CHR 0x0A] else [])"
    by (simp add: api_error_eq [OF gen] w2 Write_simps WriteHeader_Some [OF w2] Header_Set_simps
          Encoder_Encode_eq)
  then show ?thesis
    by (auto simp: Encode_error_fresh [OF st cl w2] ErrBodyNotAllowed_def)
qed

lemma Sprintf_id_empty:
  \<open>Sprintf rest ''id %q empty'' [VString ''abc''] = ''id "abc" empty''\<close>
  by (simp add: Sprintf_def fmtString_def extra_def Quote_def appendEscapedRune_def)

lemma appendString_id_empty:
  \<open>appendString ''id "abc" empty'' = ''"id '' @ [CHR 0x5C] @ ''"abc'' @ [CHR 0x5C] @ ''" empty"''\<close>
  by (simp add: appendString_def htmlSafeSet_def escapeByte_def)

lemma Sprintf_internal:
  "Sprintf rest ''internal server error'' [] = ''internal server error''"
  by (simp add: Sprintf_def extra_def)

lemma appendString_internal:
  \<open>appendString ''internal server error'' = ''"internal server error"''\<close>
  by (simp add: appendString_def htmlSafeSet_def)

lemma mux_example: "mux_Handler ''/example'' = Some RouteExample"
  by (simp add: mux_Handler_def routes_def)

lemma ServeHTTP_example: "ServeHTTP rest rnd a w ''/example'' = api_error rest rnd a w (error500 (Some (Errorf rest ''exampleHandler: %v'' [VError errBroken])))"
  by (simp add: ServeHTTP_def mux_example exampleHandler_def)

lemma e500: "code (error500 c) = 500" "msg (error500 c) = ''internal server error''" "args (error500 c) = []"
  by (simp_all add: error500_def newHTTPError_def)

lemma newResponse_simps: "status (newResponse b) = None" "broken (newResponse b) = b"
    "body (newResponse b) = []" "Header (newResponse b) = Map.empty"
    "Header (newResponse b) k = None"
    by (simp_all add: newResponse_def)

lemma error500_status: "status (rw_of (api_error rest rnd a (newResponse b) (error500 c))) = Some 500"
  using api_error_status [of "newResponse b" "error500 c" rest rnd a]
  by (simp add: e500 newResponse_simps)

lemma error500_body: \<open>body (rw_of (api_error rest rnd a (newResponse b) (error500 c)))
      = (if b = None then ''{"err":"internal server error"}'' @ [CHR 0x0A] else [])\<close>
  using api_error_body_fresh [of "newResponse b" "error500 c" rest rnd a]
  by (simp add: e500 newResponse_simps Sprintf_internal appendString_internal)

lemma Contains_head: "Contains s (c # sub) \<Longrightarrow> c \<in> set s"
  by (induction s) auto

lemma plain_not_Contains:
  assumes "list_all (\<lambda>c. c \<in> set ''0123456789abcdef-'') s"
  shows "\<not> Contains s ''server broken''"
proof
  assume "Contains s ''server broken''"
  then have m: "CHR ''s'' \<in> set s" by (rule Contains_head)
  from assms have "\<forall>c \<in> set s. c \<in> set ''0123456789abcdef-''"
    by (simp only: list_all_iff)
  then have "CHR ''s'' \<in> set ''0123456789abcdef-''" using m by (rule bspec)
  then show False by simp
qed

lemma body_not_Contains:
  \<open>\<not> Contains (''{"err":"internal server error"}'' @ [CHR 0x0A]) ''server broken''\<close>
  by code_simp

lemma e500_error: "error (error500 c) = c"
  by (simp add: error500_def newHTTPError_def)



lemma genUUID_zero:
  "genUUID (\<lambda>format v. []) (RandBytes (\<lambda>i. 0)) = Some (''00000000-0000-0000-0000-000000000000'', None)"
  by code_simp

lemma api_error_calls:
  assumes gen: "genUUID rest rnd = Some (errID, genErr)"
  shows \<open>calls (rw_of (api_error rest rnd a w e)) =
     calls w @ [CallHeaderSet ''X-Errid'' errID]
     @ (if returns (api_error rest rnd a w e)
        then [CallWriteHeader (code e),
              CallWrite (''{"err":'' @ appendString (Sprintf rest (msg e) (args e)) @ ''}'' @ [CHR 0x0A])]
        else [])\<close>
proof (cases "WriteHeader (code e) (Header_Set ''X-Errid'' errID w)")
  case None
  then show ?thesis
    by (simp add: api_error_eq [OF gen] Header_Set_simps)
next
  case (Some w2)
  then show ?thesis
    by (simp add: api_error_eq [OF gen] Encoder_Encode_eq Write_simps WriteHeader_Some [OF Some]
          Header_Set_simps)
qed

lemma api_error_status_any:
  "status (rw_of (api_error rest rnd a w e)) =
     (if status w \<noteq> None then status w
      else if code e < 100 \<or> 999 < code e then None
      else Some (if code e < 200 \<and> code e \<noteq> 101 then 200 else code e))"
proof -
  obtain errID genErr where gen: "genUUID rest rnd = Some (errID, genErr)"
    using genUUID_total by blast
  show ?thesis
  proof (cases "WriteHeader (code e) (Header_Set ''X-Errid'' errID w)")
    case None
    then show ?thesis
      using WriteHeader_None_iff [of "code e" "Header_Set ''X-Errid'' errID w"]
      by (auto simp: api_error_eq [OF gen] Header_Set_simps)
  next
    case (Some w2)
    have "\<not> (status w = None \<and> (code e < 100 \<or> 999 < code e))"
      using Some WriteHeader_None_iff [of "code e" "Header_Set ''X-Errid'' errID w"]
      by (auto simp: Header_Set_simps)
    then show ?thesis
      by (auto simp: api_error_eq [OF gen] Some Encoder_Encode_eq Write_simps WriteHeader_Some [OF Some]
            Header_Set_simps)
  qed
qed

lemma declaredLength_other:
  "declaredLength (h(''X-Errid'' \<mapsto> v)) = declaredLength h"
  by (simp add: declaredLength_def)

lemma Write_after_WriteHeader:
  assumes "WriteHeader c (Header_Set ''X-Errid'' u w) = Some w2"
    and "WriteHeader c (Header_Set ''X-Errid'' u' w) = Some w2'"
  shows "snd (Write d w2) = snd (Write d w2')"
  by (cases "status w")
     (simp_all add: Write_error WriteHeader_Some [OF assms(1)] WriteHeader_Some [OF assms(2)]
        Header_Set_simps canonical_X_Errid declaredLength_other cong: option.case_cong)

lemma api_error_body_rnd:
  "body (rw_of (api_error rest rnd a w e)) = body (rw_of (api_error rest rnd' a w e))"
proof -
  obtain u genErr where gen: "genUUID rest rnd = Some (u, genErr)"
    using genUUID_total by blast
  obtain u' genErr' where gen': "genUUID rest rnd' = Some (u', genErr')"
    using genUUID_total by blast
  show ?thesis
  proof (cases "status w \<noteq> None \<or> (100 \<le> code e \<and> code e \<le> 999)")
    case True
    obtain w2 where w2: "WriteHeader (code e) (Header_Set ''X-Errid'' u w) = Some w2"
      using True by (rule api_error_Returns)
    obtain w2' where w2': "WriteHeader (code e) (Header_Set ''X-Errid'' u' w) = Some w2'"
      using True by (rule api_error_Returns)
    show ?thesis
      by (simp add: api_error_eq [OF gen] api_error_eq [OF gen'] w2 w2' Encoder_Encode_eq Write_simps
            WriteHeader_Some [OF w2] WriteHeader_Some [OF w2'] Header_Set_simps
            Write_after_WriteHeader [OF w2 w2'])
  next
    case False
    then have n: "WriteHeader (code e) (Header_Set ''X-Errid'' u w) = None"
      "WriteHeader (code e) (Header_Set ''X-Errid'' u' w) = None"
      by (auto simp: WriteHeader_None_iff Header_Set_simps)
    show ?thesis
      by (simp add: api_error_eq [OF gen] api_error_eq [OF gen'] n Header_Set_simps)
  qed
qed

lemma api_error_log_first:
  assumes gen: "genUUID rest rnd = Some (errID, Some g)"
  shows \<open>take (Suc (length (log a))) (log (api_of (api_error rest rnd a w e))) =
     log a @ [''genErr='' @ Error g @ '', msg="error while reporting API error"'']
   \<and> length (log (api_of (api_error rest rnd a w e))) =
       length (log a) + (if returns (api_error rest rnd a w e) then 2 else 1)\<close>
  by (cases "WriteHeader (code e) (Header_Set ''X-Errid'' errID w)")
     (simp_all add: api_error_eq [OF gen])

lemma api_error_fresh:
  assumes gen: "genUUID rest rnd = Some (errID, genErr)"
    and st: "status w = None" and cl: "Header w ''Content-Length'' = None"
    and br: "broken w = None"
    and c: "100 \<le> code e" "code e \<le> 999" "code e \<noteq> 101" "code e \<noteq> 204" "code e \<noteq> 304"
  shows \<open>returns (api_error rest rnd a w e)\<close>
    and \<open>log (api_of (api_error rest rnd a w e)) =
       log a
       @ (case genErr of None \<Rightarrow> []
          | Some g \<Rightarrow> [''genErr='' @ Error g @ '', msg="error while reporting API error"''])
       @ [''errID="'' @ errID @ ''", err='' @
          (case error e of None \<Rightarrow> catchPanic CHR ''v'' | Some c \<Rightarrow> Error c)]\<close>
proof -
  have ok: "status w \<noteq> None \<or> (100 \<le> code e \<and> code e \<le> 999)"
    using c by simp
  obtain w2 where w2: "WriteHeader (code e) (Header_Set ''X-Errid'' errID w) = Some w2"
    using ok by (rule api_error_Returns)
  have enc: "snd (Encoder_Encode rest w2 e) = None"
    using Encode_error_fresh [OF st cl w2] c br by simp
  show \<open>returns (api_error rest rnd a w e)\<close>
    by (simp add: api_error_eq [OF gen] w2)
  show \<open>log (api_of (api_error rest rnd a w e)) =
       log a
       @ (case genErr of None \<Rightarrow> []
          | Some g \<Rightarrow> [''genErr='' @ Error g @ '', msg="error while reporting API error"''])
       @ [''errID="'' @ errID @ ''", err='' @
          (case error e of None \<Rightarrow> catchPanic CHR ''v'' | Some c \<Rightarrow> Error c)]\<close>
    by (simp add: api_error_eq [OF gen] w2 enc)
qed

lemma Encode_body:
  \<open>body (fst (Encoder_Encode rest w e)) =
     body w @ (if snd (Encoder_Encode rest w e) = None
               then ''{"err":'' @ appendString (Sprintf rest (msg e) (args e)) @ ''}'' @ [CHR 0x0A]
               else [])\<close>
  by (simp add: Encoder_Encode_eq Write_simps)

lemma e204:
  "code (newHTTPError c 204 m xs) = 204" "msg (newHTTPError c 204 m xs) = m"
  "args (newHTTPError c 204 m xs) = xs" "error (newHTTPError c 204 m xs) = c"
  by (simp_all add: newHTTPError_def)

lemma Error_ErrBodyNotAllowed:
  "Error ErrBodyNotAllowed = ''http: request method or response status code does not allow body''"
  by (simp add: ErrBodyNotAllowed_def)

lemma doPrintf_mismatch:
  "doPrintf ''id %d'' [VString ''abc''] = Some ''id %!d(string=abc)''"
  "doPrintf ''id %q'' [] = Some ''id %!q(MISSING)''"
  "doPrintf ''id'' [VString ''abc''] = Some ''id%!(EXTRA string=abc)''"
  by code_simp+

lemma appendString_mismatch:
  "appendString ''id %!d(string=abc)'' = [CHR 0x22] @ ''id %!d(string=abc)'' @ [CHR 0x22]"
  "appendString ''id %!q(MISSING)'' = [CHR 0x22] @ ''id %!q(MISSING)'' @ [CHR 0x22]"
  "appendString ''id%!(EXTRA string=abc)'' = [CHR 0x22] @ ''id%!(EXTRA string=abc)'' @ [CHR 0x22]"
  by code_simp+

lemma MarshalJSON_mismatch:
  \<open>MarshalJSON rest (newHTTPError c n ''id %d'' [VString ''abc''])
     = Inr ''{"err":"id %!d(string=abc)"}''\<close>
  \<open>MarshalJSON rest (newHTTPError c n ''id %q'' []) = Inr ''{"err":"id %!q(MISSING)"}''\<close>
  \<open>MarshalJSON rest (newHTTPError c n ''id'' [VString ''abc''])
     = Inr ''{"err":"id%!(EXTRA string=abc)"}''\<close>
  by (simp_all add: MarshalJSON_eq newHTTPError_def Sprintf_def doPrintf_mismatch
        appendString_mismatch del: doPrintf.simps)

section \<open>The claims about the error reporter\<close>




text \<open>
  Claim C3. When \<^verbatim>\<open>rand.Read\<close> fails, \<^verbatim>\<open>api.error\<close> goes on with the empty identifier:
  it returns exactly when it would have returned with an identifier, with the same
  status line and the same body; the header \<^verbatim>\<open>X-Errid\<close> is set to the empty string;
  when it returns it has called \<^verbatim>\<open>WriteHeader\<close> with the code and \<^verbatim>\<open>Write\<close> with the
  encoded object; the first line it logs is the message about the failed
  generation, and one more line follows when it returns. On a response not yet
  written to, with no declared length and a working stream, and for a status code
  from 100 to 999 that allows a body, it returns, the status is the code (200 after
  an informational code), the body is the object and a newline, and the log holds
  the message about the generation followed by the usual line with \<^verbatim>\<open>errID=""\<close>.
\<close>

theorem api_error_random_failure:
  \<open>returns (api_error rest (RandFail g) a w e) = returns (api_error rest (RandBytes f) a w e)
   \<and> status (rw_of (api_error rest (RandFail g) a w e))
       = status (rw_of (api_error rest (RandBytes f) a w e))
   \<and> body (rw_of (api_error rest (RandFail g) a w e))
       = body (rw_of (api_error rest (RandBytes f) a w e))
   \<and> Header (rw_of (api_error rest (RandFail g) a w e)) ''X-Errid'' = Some [[]]
   \<and> calls (rw_of (api_error rest (RandFail g) a w e)) =
       calls w @ [CallHeaderSet ''X-Errid'' []]
       @ (if returns (api_error rest (RandFail g) a w e)
          then [CallWriteHeader (code e),
                CallWrite (''{"err":'' @ appendString (Sprintf rest (msg e) (args e)) @ ''}''
                           @ [CHR 0x0A])]
          else [])
   \<and> take (Suc (length (log a))) (log (api_of (api_error rest (RandFail g) a w e))) =
       log a @ [''genErr=genUUID: '' @ Error g @ '', msg="error while reporting API error"'']
   \<and> length (log (api_of (api_error rest (RandFail g) a w e))) =
       length (log a) + (if returns (api_error rest (RandFail g) a w e) then 2 else 1)
   \<and> (status w = None \<and> Header w ''Content-Length'' = None \<and> broken w = None
        \<and> 100 \<le> code e \<and> code e \<le> 999
        \<and> code e \<noteq> 101 \<and> code e \<noteq> 204 \<and> code e \<noteq> 304
      \<longrightarrow> returns (api_error rest (RandFail g) a w e)
          \<and> status (rw_of (api_error rest (RandFail g) a w e))
              = Some (if code e < 200 then 200 else code e)
          \<and> body (rw_of (api_error rest (RandFail g) a w e)) =
              body w @ ''{"err":'' @ appendString (Sprintf rest (msg e) (args e)) @ ''}''
                @ [CHR 0x0A]
          \<and> log (api_of (api_error rest (RandFail g) a w e)) =
              log a
              @ [''genErr=genUUID: '' @ Error g @ '', msg="error while reporting API error"'',
                 ''errID="", err='' @
                 (case error e of None \<Rightarrow> catchPanic CHR ''v'' | Some c \<Rightarrow> Error c)])\<close>
proof -
  note gf = genUUID_RandFail [of rest g]
  have r: "returns (api_error rest (RandFail g) a w e) = returns (api_error rest (RandBytes f) a w e)"
    by (simp add: api_error_returns_iff)
  have s: "status (rw_of (api_error rest (RandFail g) a w e))
       = status (rw_of (api_error rest (RandBytes f) a w e))"
    by (simp only: api_error_status_any)
  have b: "body (rw_of (api_error rest (RandFail g) a w e))
       = body (rw_of (api_error rest (RandBytes f) a w e))"
    by (rule api_error_body_rnd)
  have h: "Header (rw_of (api_error rest (RandFail g) a w e)) ''X-Errid'' = Some [[]]"
    by (cases "WriteHeader (code e) (Header_Set ''X-Errid'' [] w)")
       (simp_all add: api_error_eq [OF gf] Encoder_Encode_eq Write_simps WriteHeader_Some
          Header_Set_simps canonical_X_Errid)
  note c = api_error_calls [OF gf, of a w e]
  have l: "take (Suc (length (log a))) (log (api_of (api_error rest (RandFail g) a w e))) =
       log a @ [''genErr=genUUID: '' @ Error g @ '', msg=\"error while reporting API error\"'']"
    "length (log (api_of (api_error rest (RandFail g) a w e))) =
       length (log a) + (if returns (api_error rest (RandFail g) a w e) then 2 else 1)"
    using api_error_log_first [OF gf, of a w e] by simp_all
  have p: "returns (api_error rest (RandFail g) a w e)
          \<and> status (rw_of (api_error rest (RandFail g) a w e))
              = Some (if code e < 200 then 200 else code e)
          \<and> body (rw_of (api_error rest (RandFail g) a w e)) =
              body w @ ''{\"err\":'' @ appendString (Sprintf rest (msg e) (args e)) @ ''}''
                @ [CHR 0x0A]
          \<and> log (api_of (api_error rest (RandFail g) a w e)) =
              log a
              @ [''genErr=genUUID: '' @ Error g @ '', msg=\"error while reporting API error\"'',
                 ''errID=\"\", err='' @
                 (case error e of None \<Rightarrow> catchPanic CHR ''v'' | Some c \<Rightarrow> Error c)]"
    if "status w = None" "Header w ''Content-Length'' = None" "broken w = None"
      "100 \<le> code e" "code e \<le> 999" "code e \<noteq> 101" "code e \<noteq> 204" "code e \<noteq> 304"
    using that api_error_fresh [OF gf that, of a] api_error_status [of w e rest "RandFail g" a]
      api_error_body_fresh [of w e rest "RandFail g" a]
    by simp
  from r s b h c l p show ?thesis
    by blast
qed

theorem api_error_random_failure_witness:
  \<open>status (newResponse None) = None
   \<and> Header (newResponse None) ''Content-Length'' = None
   \<and> broken (newResponse None) = None
   \<and> code (error500 (Some (ErrorString ''boom''))) = 500
   \<and> returns (api_error (\<lambda>format v. []) (RandFail (ErrorString ''EOF'')) \<lparr>log = []\<rparr>
        (newResponse None) (error500 (Some (ErrorString ''boom''))))
   \<and> status (rw_of (api_error (\<lambda>format v. []) (RandFail (ErrorString ''EOF'')) \<lparr>log = []\<rparr>
        (newResponse None) (error500 (Some (ErrorString ''boom''))))) = Some 500
   \<and> body (rw_of (api_error (\<lambda>format v. []) (RandFail (ErrorString ''EOF'')) \<lparr>log = []\<rparr>
        (newResponse None) (error500 (Some (ErrorString ''boom'')))))
       = ''{"err":"internal server error"}'' @ [CHR 0x0A]
   \<and> log (api_of (api_error (\<lambda>format v. []) (RandFail (ErrorString ''EOF'')) \<lparr>log = []\<rparr>
        (newResponse None) (error500 (Some (ErrorString ''boom'')))))
       = [''genErr=genUUID: EOF, msg="error while reporting API error"'',
          ''errID="", err=boom'']\<close>
proof -
  let ?e = "error500 (Some (ErrorString ''boom''))"
  have h: "status (newResponse None) = None \<and> Header (newResponse None) ''Content-Length'' = None
      \<and> broken (newResponse None) = None
      \<and> 100 \<le> code ?e \<and> code ?e \<le> 999 \<and> code ?e \<noteq> 101 \<and> code ?e \<noteq> 204 \<and> code ?e \<noteq> 304"
    by (simp add: e500 newResponse_simps)
  note t = api_error_random_failure [where rest = "\<lambda>format v. []" and g = "ErrorString ''EOF''"
      and a = "\<lparr>log = []\<rparr>" and w = "newResponse None" and e = ?e and f = "\<lambda>i. 0",
      THEN conjunct2, THEN conjunct2, THEN conjunct2, THEN conjunct2, THEN conjunct2,
      THEN conjunct2, THEN conjunct2, THEN mp, OF h]
  from t h show ?thesis
    by (simp add: e500 e500_error newResponse_simps Sprintf_internal appendString_internal)
qed

text \<open>
  Claim C4, as amended: the header is named \<^verbatim>\<open>X-Errid\<close>. For every \<^verbatim>\<open>httpError\<close> and
  every outcome of \<^verbatim>\<open>rand.Read\<close>, after \<^verbatim>\<open>api.error\<close> the header map holds \<^verbatim>\<open>X-Errid\<close>
  with the identifier as its one value; setting it is the first call made on the
  writer, before \<^verbatim>\<open>WriteHeader\<close>; when the call returns on a response whose status
  line was not yet written, the header is among those sent with the status line;
  and when the generation failed the identifier is the empty string, the key being
  present all the same.
\<close>

theorem api_error_sets_header:
  assumes gen: "genUUID rest rnd = Some (errID, genErr)"
  shows \<open>Header (rw_of (api_error rest rnd a w e)) ''X-Errid'' = Some [errID]
     \<and> calls (rw_of (api_error rest rnd a w e)) =
         calls w @ [CallHeaderSet ''X-Errid'' errID]
         @ (if returns (api_error rest rnd a w e)
            then [CallWriteHeader (code e),
                  CallWrite (''{"err":'' @ appendString (Sprintf rest (msg e) (args e)) @ ''}''
                             @ [CHR 0x0A])]
            else [])
     \<and> (returns (api_error rest rnd a w e) \<and> status w = None
          \<longrightarrow> sent (rw_of (api_error rest rnd a w e)) ''X-Errid'' = Some [errID])
     \<and> (\<forall>g. rnd = RandFail g \<longrightarrow> errID = [])\<close>
proof -
  have last: "\<forall>g. rnd = RandFail g \<longrightarrow> errID = []"
    using gen by (auto simp: genUUID_RandFail)
  show ?thesis
  proof (cases "WriteHeader (code e) (Header_Set ''X-Errid'' errID w)")
    case None
    then show ?thesis
      using last by (simp add: api_error_eq [OF gen] Header_Set_simps canonical_X_Errid)
  next
    case (Some w2)
    then show ?thesis
      using last
      by (simp add: api_error_eq [OF gen] Encoder_Encode_eq Write_simps WriteHeader_Some [OF Some]
            Header_Set_simps canonical_X_Errid)
  qed
qed

theorem api_error_sets_header_witness:
  \<open>genUUID (\<lambda>format v. []) (RandFail (ErrorString ''EOF''))
     = Some ([], Some (ErrorString ''genUUID: EOF''))
   \<and> returns (api_error (\<lambda>format v. []) (RandFail (ErrorString ''EOF'')) \<lparr>log = []\<rparr>
        (newResponse None) (error500 (Some (ErrorString ''boom''))))
   \<and> status (newResponse None) = None
   \<and> Header (rw_of (api_error (\<lambda>format v. []) (RandFail (ErrorString ''EOF'')) \<lparr>log = []\<rparr>
        (newResponse None) (error500 (Some (ErrorString ''boom''))))) ''X-Errid'' = Some [[]]
   \<and> sent (rw_of (api_error (\<lambda>format v. []) (RandFail (ErrorString ''EOF'')) \<lparr>log = []\<rparr>
        (newResponse None) (error500 (Some (ErrorString ''boom''))))) ''X-Errid'' = Some [[]]\<close>
proof -
  have g: "genUUID (\<lambda>format v. []) (RandFail (ErrorString ''EOF''))
     = Some ([], Some (ErrorString ''genUUID: EOF''))"
    by (simp add: genUUID_RandFail)
  have r: "returns (api_error (\<lambda>format v. []) (RandFail (ErrorString ''EOF'')) \<lparr>log = []\<rparr>
        (newResponse None) (error500 (Some (ErrorString ''boom''))))"
    by (simp add: api_error_returns_iff e500)
  have s: "status (newResponse None) = None"
    by (simp add: newResponse_simps)
  from api_error_sets_header [OF g, of "\<lparr>log = []\<rparr>" "newResponse None"
      "error500 (Some (ErrorString ''boom''))"] g r s
  show ?thesis
    by simp
qed

text \<open>
  Claim C4 as stated fails: no header named \<^verbatim>\<open>X-Error-Id\<close> is set or sent; the
  identifier travels under \<^verbatim>\<open>X-Errid\<close>.
\<close>

theorem header_name_counterexample:
  \<open>Header (rw_of (api_error (\<lambda>format v. []) (RandBytes (\<lambda>i. 0)) \<lparr>log = []\<rparr> (newResponse None)
              (error500 (Some (ErrorString ''boom''))))) ''X-Error-Id'' = None
   \<and> Header_Get
        (sent (rw_of (api_error (\<lambda>format v. []) (RandBytes (\<lambda>i. 0)) \<lparr>log = []\<rparr> (newResponse None)
              (error500 (Some (ErrorString ''boom'')))))) ''X-Error-Id'' = []
   \<and> sent (rw_of (api_error (\<lambda>format v. []) (RandBytes (\<lambda>i. 0)) \<lparr>log = []\<rparr> (newResponse None)
              (error500 (Some (ErrorString ''boom''))))) ''X-Error-Id'' = None
   \<and> sent (rw_of (api_error (\<lambda>format v. []) (RandBytes (\<lambda>i. 0)) \<lparr>log = []\<rparr> (newResponse None)
              (error500 (Some (ErrorString ''boom''))))) ''X-Errid''
       = Some [''00000000-0000-0000-0000-000000000000'']\<close>
  by code_simp

text \<open>
  Claim C5. When \<^verbatim>\<open>json.NewEncoder(w).Encode(err)\<close> returns an error, whatever its
  kind (the stream's, the refusal of a body under status 101, 204 or 304, more bytes
  than the declared length), \<^verbatim>\<open>api.error\<close> returns after one more log line, which
  holds the identifier, the \<^verbatim>\<open>httpError\<close> as \<^verbatim>\<open>%v\<close> prints it and the encoder's error;
  the line of the successful path is not logged. The failed \<^verbatim>\<open>Write\<close> is the last
  call made on the writer, and the body is as it was. Here \<open>w2\<close> is the response
  after \<^verbatim>\<open>WriteHeader\<close>, the one the encoder writes on.
\<close>

theorem api_error_encode_failure:
  assumes gen: "genUUID rest rnd = Some (errID, genErr)"
    and hdr: "WriteHeader (code e) (Header_Set ''X-Errid'' errID w) = Some w2"
    and enc: "snd (Encoder_Encode rest w2 e) = Some x"
  shows \<open>returns (api_error rest rnd a w e)
     \<and> log (api_of (api_error rest rnd a w e)) =
         log a
         @ (case genErr of None \<Rightarrow> []
            | Some g \<Rightarrow> [''genErr='' @ Error g @ '', msg="error while reporting API error"''])
         @ [''errID="'' @ errID @ ''", err='' @
            (case error e of None \<Rightarrow> catchPanic CHR ''v'' | Some c \<Rightarrow> Error c) @
            '', encodeErr='' @ Error x @ '', msg=error while reporting API error'']
     \<and> calls (rw_of (api_error rest rnd a w e)) =
         calls w
         @ [CallHeaderSet ''X-Errid'' errID, CallWriteHeader (code e),
            CallWrite (''{"err":'' @ appendString (Sprintf rest (msg e) (args e)) @ ''}'' @ [CHR 0x0A])]
     \<and> body (rw_of (api_error rest rnd a w e)) = body w\<close>
proof -
  have r: "returns (api_error rest rnd a w e)"
    by (simp add: api_error_eq [OF gen] hdr)
  have l: "log (api_of (api_error rest rnd a w e)) =
         log a
         @ (case genErr of None \<Rightarrow> []
            | Some g \<Rightarrow> [''genErr='' @ Error g @ '', msg=\"error while reporting API error\"''])
         @ [''errID=\"'' @ errID @ ''\", err='' @
            (case error e of None \<Rightarrow> catchPanic CHR ''v'' | Some c \<Rightarrow> Error c) @
            '', encodeErr='' @ Error x @ '', msg=error while reporting API error'']"
    by (simp add: api_error_eq [OF gen] hdr enc)
  have c: "calls (rw_of (api_error rest rnd a w e)) =
         calls w
         @ [CallHeaderSet ''X-Errid'' errID, CallWriteHeader (code e),
            CallWrite (''{\"err\":'' @ appendString (Sprintf rest (msg e) (args e)) @ ''}'' @ [CHR 0x0A])]"
    using api_error_calls [OF gen, of a w e] r by simp
  have b: "body (rw_of (api_error rest rnd a w e)) = body w"
    by (simp add: api_error_eq [OF gen] hdr Encode_body enc
          WriteHeader_Some [OF hdr] Header_Set_simps)
  from r l c b show ?thesis
    by (intro conjI)
qed

theorem api_error_encode_failure_witness:
  \<open>genUUID (\<lambda>format v. []) (RandBytes (\<lambda>i. 0))
     = Some (''00000000-0000-0000-0000-000000000000'', None)
   \<and> (\<exists>w2. WriteHeader (code (newHTTPError (Some (ErrorString ''boom'')) 204 ''gone'' []))
              (Header_Set ''X-Errid'' ''00000000-0000-0000-0000-000000000000'' (newResponse None))
            = Some w2
          \<and> snd (Encoder_Encode (\<lambda>format v. []) w2
                 (newHTTPError (Some (ErrorString ''boom'')) 204 ''gone'' []))
            = Some ErrBodyNotAllowed)
   \<and> returns (api_error (\<lambda>format v. []) (RandBytes (\<lambda>i. 0)) \<lparr>log = []\<rparr>
        (newResponse None) (newHTTPError (Some (ErrorString ''boom'')) 204 ''gone'' []))
   \<and> log (api_of (api_error (\<lambda>format v. []) (RandBytes (\<lambda>i. 0)) \<lparr>log = []\<rparr>
        (newResponse None) (newHTTPError (Some (ErrorString ''boom'')) 204 ''gone'' [])))
       = [''errID="00000000-0000-0000-0000-000000000000", err=boom, encodeErr='' @
          ''http: request method or response status code does not allow body'' @
          '', msg=error while reporting API error'']
   \<and> body (rw_of (api_error (\<lambda>format v. []) (RandBytes (\<lambda>i. 0)) \<lparr>log = []\<rparr>
        (newResponse None) (newHTTPError (Some (ErrorString ''boom'')) 204 ''gone'' [])))
       = []\<close>
proof -
  let ?e = "newHTTPError (Some (ErrorString ''boom'')) 204 ''gone'' []"
  note g = genUUID_zero
  have ok: "status (newResponse None) \<noteq> None \<or> (100 \<le> code ?e \<and> code ?e \<le> 999)"
    by (simp add: e204)
  obtain w2 where w2: "WriteHeader (code ?e)
      (Header_Set ''X-Errid'' ''00000000-0000-0000-0000-000000000000'' (newResponse None)) = Some w2"
    using ok by (rule api_error_Returns)
  have enc: "snd (Encoder_Encode (\<lambda>format v. []) w2 ?e) = Some ErrBodyNotAllowed"
    using Encode_error_fresh [OF _ _ w2, of "\<lambda>format v. []"]
    by (simp add: newResponse_simps e204)
  have ex: "\<exists>w2. WriteHeader (code ?e)
      (Header_Set ''X-Errid'' ''00000000-0000-0000-0000-000000000000'' (newResponse None)) = Some w2
      \<and> snd (Encoder_Encode (\<lambda>format v. []) w2 ?e) = Some ErrBodyNotAllowed"
    using w2 enc by (intro exI conjI)
  from api_error_encode_failure [OF g w2 enc, of "\<lparr>log = []\<rparr>"] g ex show ?thesis
    by (simp add: e204 newResponse_simps Error_ErrBodyNotAllowed)
qed

text \<open>
  Claim C6, as amended. When \<^verbatim>\<open>Encode\<close> returns no error, \<^verbatim>\<open>api.error\<close> logs exactly
  one line after the optional message about the identifier:
  \<^verbatim>\<open>errID="<id>", err=<text>\<close>, where the text is what the embedded error's
  \<^verbatim>\<open>Error()\<close> returns (\<^verbatim>\<open>%v\<close> of an \<^verbatim>\<open>*httpError\<close> prints the underlying error, as the
  comment on the type says). The status code, the template and the arguments are
  not part of the line. Here \<open>w2\<close> is the response after \<^verbatim>\<open>WriteHeader\<close>, the one the
  encoder writes on.
\<close>

theorem api_error_success_log:
  assumes gen: "genUUID rest rnd = Some (errID, genErr)"
    and hdr: "WriteHeader (code e) (Header_Set ''X-Errid'' errID w) = Some w2"
    and enc: "snd (Encoder_Encode rest w2 e) = None"
  shows \<open>returns (api_error rest rnd a w e)
     \<and> log (api_of (api_error rest rnd a w e)) =
         log a
         @ (case genErr of None \<Rightarrow> []
            | Some g \<Rightarrow> [''genErr='' @ Error g @ '', msg="error while reporting API error"''])
         @ [''errID="'' @ errID @ ''", err='' @
            (case error e of None \<Rightarrow> catchPanic CHR ''v'' | Some c \<Rightarrow> Error c)]\<close>
proof -
  note run = api_error_eq [OF gen, of a w e]
  have r: "returns (api_error rest rnd a w e)"
    unfolding run hdr by simp
  have l: "log (api_of (api_error rest rnd a w e)) =
         log a
         @ (case genErr of None \<Rightarrow> []
            | Some g \<Rightarrow> [''genErr='' @ Error g @ '', msg=\"error while reporting API error\"''])
         @ [''errID=\"'' @ errID @ ''\", err='' @
            (case error e of None \<Rightarrow> catchPanic CHR ''v'' | Some c \<Rightarrow> Error c)]"
    unfolding run hdr by (simp add: enc)
  from r l show ?thesis
    by (rule conjI)
qed

theorem api_error_success_log_witness:
  \<open>genUUID (\<lambda>format v. []) (RandBytes (\<lambda>i. 0))
     = Some (''00000000-0000-0000-0000-000000000000'', None)
   \<and> (\<exists>w2. WriteHeader (code (error500 (Some (ErrorString ''boom''))))
              (Header_Set ''X-Errid'' ''00000000-0000-0000-0000-000000000000'' (newResponse None))
            = Some w2
          \<and> snd (Encoder_Encode (\<lambda>format v. []) w2 (error500 (Some (ErrorString ''boom''))))
            = None)
   \<and> returns (api_error (\<lambda>format v. []) (RandBytes (\<lambda>i. 0)) \<lparr>log = []\<rparr>
        (newResponse None) (error500 (Some (ErrorString ''boom''))))
   \<and> log (api_of (api_error (\<lambda>format v. []) (RandBytes (\<lambda>i. 0)) \<lparr>log = []\<rparr>
        (newResponse None) (error500 (Some (ErrorString ''boom'')))))
       = [''errID="00000000-0000-0000-0000-000000000000", err=boom'']\<close>
proof -
  let ?e = "error500 (Some (ErrorString ''boom''))"
  note g = genUUID_zero
  have ok: "status (newResponse None) \<noteq> None \<or> (100 \<le> code ?e \<and> code ?e \<le> 999)"
    by (simp add: e500)
  obtain w2 where w2: "WriteHeader (code ?e)
      (Header_Set ''X-Errid'' ''00000000-0000-0000-0000-000000000000'' (newResponse None)) = Some w2"
    using ok by (rule api_error_Returns)
  have enc: "snd (Encoder_Encode (\<lambda>format v. []) w2 ?e) = None"
    using Encode_error_fresh [OF _ _ w2, of "\<lambda>format v. []"]
    by (simp add: newResponse_simps e500)
  have ex: "\<exists>w2. WriteHeader (code ?e)
      (Header_Set ''X-Errid'' ''00000000-0000-0000-0000-000000000000'' (newResponse None)) = Some w2
      \<and> snd (Encoder_Encode (\<lambda>format v. []) w2 ?e) = None"
    using w2 enc by (intro exI conjI)
  from api_error_success_log [OF g w2 enc, of "\<lparr>log = []\<rparr>"] g ex show ?thesis
    by (simp add: e500_error)
qed

text \<open>
  Claim C6 as stated fails: the line logged for
  \<^verbatim>\<open>error400(errors.New("boom"), "id %q empty", "abc")\<close> holds the identifier and the
  cause, and neither the status code nor the template nor the argument.
\<close>

theorem log_line_counterexample:
  \<open>log (api_of (api_error (\<lambda>format v. []) (RandBytes (\<lambda>i. 0)) \<lparr>log = []\<rparr> (newResponse None)
           (error400 (Some (ErrorString ''boom'')) ''id %q empty'' [VString ''abc''])))
     = [''errID="00000000-0000-0000-0000-000000000000", err=boom'']
   \<and> \<not> Contains ''errID="00000000-0000-0000-0000-000000000000", err=boom'' ''400''
   \<and> \<not> Contains ''errID="00000000-0000-0000-0000-000000000000", err=boom'' ''id %q empty''
   \<and> \<not> Contains ''errID="00000000-0000-0000-0000-000000000000", err=boom'' ''abc''\<close>
  by code_simp

text \<open>
  Claim C7, as amended. Reporting \<^verbatim>\<open>error400(err, "id %q empty", "abc")\<close> on a fresh
  response writes status 400 and the body \<^verbatim>\<open>{"err":"id \"abc\" empty"}\<close> followed by a
  newline, whatever the cause, the logger and the outcome of \<^verbatim>\<open>rand.Read\<close>.
\<close>

theorem error400_report:
  \<open>status (rw_of (api_error rest rnd a (newResponse None)
              (error400 cause ''id %q empty'' [VString ''abc''])))
     = Some 400
   \<and> body (rw_of (api_error rest rnd a (newResponse None)
              (error400 cause ''id %q empty'' [VString ''abc''])))
     = ''{"err":"id '' @ [CHR 0x5C] @ ''"abc'' @ [CHR 0x5C] @ ''" empty"}'' @ [CHR 0x0A]\<close>
proof -
  let ?e = "error400 cause ''id %q empty'' [VString ''abc'']"
  have e: "code ?e = 400" "msg ?e = ''id %q empty''" "args ?e = [VString ''abc'']"
    by (simp_all add: error400_def newHTTPError_def)
  have w: "status (newResponse None) = None" "broken (newResponse None) = None"
    "body (newResponse None) = []" "Header (newResponse None) ''Content-Length'' = None"
    by (simp_all add: newResponse_def)
  have s: "status (rw_of (api_error rest rnd a (newResponse None) ?e)) = Some 400"
    using api_error_status [of "newResponse None" ?e rest rnd a] by (simp add: e w)
  have b: "body (rw_of (api_error rest rnd a (newResponse None) ?e))
      = ''{\"err\":\"id '' @ [CHR 0x5C] @ ''\"abc'' @ [CHR 0x5C] @ ''\" empty\"}'' @ [CHR 0x0A]"
    using api_error_body_fresh [of "newResponse None" ?e rest rnd a]
    by (simp add: e w Sprintf_id_empty appendString_id_empty)
  from s b show ?thesis by simp
qed

text \<open>
  Claim C7 as stated fails: the body is not exactly the object, since the encoder
  ends it with a newline.
\<close>

theorem error400_report_counterexample:
  \<open>body (rw_of (api_error (\<lambda>format v. []) (RandFail (ErrorString ''EOF'')) \<lparr>log = []\<rparr>
            (newResponse None)
            (error400 (Some (ErrorString ''boom'')) ''id %q empty'' [VString ''abc''])))
     \<noteq> ''{"err":"id '' @ [CHR 0x5C] @ ''"abc'' @ [CHR 0x5C] @ ''" empty"}''\<close>
  by code_simp

text \<open>
  Claim C8, as amended. \<^verbatim>\<open>MarshalJSON\<close> returns no error, for any template and any
  arguments: the value handed to \<^verbatim>\<open>json.Marshal\<close> is a struct with one string field,
  and \<^verbatim>\<open>Sprintf\<close> returns a string also when verbs and operands do not match (a
  wrong verb, a missing operand and an operand too many are printed as
  \<^verbatim>\<open>%!d(string=abc)\<close>, \<^verbatim>\<open>%!q(MISSING)\<close> and \<^verbatim>\<open>%!(EXTRA string=abc)\<close>). So \<^verbatim>\<open>Encode\<close>
  is one \<^verbatim>\<open>Write\<close> of the object and a newline, and its error is that of the
  \<^verbatim>\<open>Write\<close>: the refusal of a body under a status that allows none, else more bytes
  than the declared length, else the error of the stream. In \<^verbatim>\<open>api.error\<close>, on a
  response not yet written to and with no declared length, the status is the code
  of the \<^verbatim>\<open>httpError\<close>: the encoder fails for the codes 101, 204 and 304 whatever
  the stream, and for any other code with the stream.
\<close>

theorem MarshalJSON_never_fails:
  \<open>MarshalJSON rest err = Inr (''{"err":'' @ appendString (Sprintf rest (msg err) (args err)) @ ''}'')
   \<and> MarshalJSON rest (newHTTPError c n ''id %d'' [VString ''abc''])
       = Inr ''{"err":"id %!d(string=abc)"}''
   \<and> MarshalJSON rest (newHTTPError c n ''id %q'' []) = Inr ''{"err":"id %!q(MISSING)"}''
   \<and> MarshalJSON rest (newHTTPError c n ''id'' [VString ''abc''])
       = Inr ''{"err":"id%!(EXTRA string=abc)"}''
   \<and> Encoder_Encode rest w err =
       Write (''{"err":'' @ appendString (Sprintf rest (msg err) (args err)) @ ''}'' @ [CHR 0x0A]) w
   \<and> snd (Encoder_Encode rest w err) =
       (if \<not> bodyAllowedForStatus (case status w of Some s \<Rightarrow> s | None \<Rightarrow> 200)
          then Some ErrBodyNotAllowed
        else if (case (if status w = None then declaredLength (Header w) else contentLength w) of
                   None \<Rightarrow> False
                 | Some k \<Rightarrow>
                     k < written w +
                         length (''{"err":'' @ appendString (Sprintf rest (msg err) (args err))
                                 @ ''}'' @ [CHR 0x0A]))
          then Some ErrContentLength
        else broken w)
   \<and> (status w = None \<and> Header w ''Content-Length'' = None
        \<and> WriteHeader (code err) (Header_Set ''X-Errid'' errID w) = Some w2
      \<longrightarrow> snd (Encoder_Encode rest w2 err) =
            (if code err = 101 \<or> code err = 204 \<or> code err = 304 then Some ErrBodyNotAllowed
             else broken w))\<close>
proof -
  have e: "snd (Encoder_Encode rest w err) =
       (if \<not> bodyAllowedForStatus (case status w of Some s \<Rightarrow> s | None \<Rightarrow> 200)
          then Some ErrBodyNotAllowed
        else if (case (if status w = None then declaredLength (Header w) else contentLength w) of
                   None \<Rightarrow> False
                 | Some k \<Rightarrow>
                     k < written w +
                         length (''{\"err\":'' @ appendString (Sprintf rest (msg err) (args err))
                                 @ ''}'' @ [CHR 0x0A]))
          then Some ErrContentLength
        else broken w)"
    unfolding Encoder_Encode_eq Write_error by simp
  have p: "snd (Encoder_Encode rest w2 err) =
            (if code err = 101 \<or> code err = 204 \<or> code err = 304 then Some ErrBodyNotAllowed
             else broken w)"
    if "status w = None" "Header w ''Content-Length'' = None"
      "WriteHeader (code err) (Header_Set ''X-Errid'' errID w) = Some w2"
    using that by (rule Encode_error_fresh)
  from MarshalJSON_eq [of rest err] MarshalJSON_mismatch [of rest c n]
    Encoder_Encode_eq [of rest w err] e p
  show ?thesis
    by (intro conjI impI; (elim conjE)?; assumption?)
qed

theorem MarshalJSON_never_fails_witness:
  \<open>status (newResponse None) = None
   \<and> Header (newResponse None) ''Content-Length'' = None
   \<and> broken (newResponse None) = None
   \<and> MarshalJSON (\<lambda>format v. []) (newHTTPError None 304 ''id %d'' [VString ''abc''])
       = Inr ''{"err":"id %!d(string=abc)"}''
   \<and> (\<exists>w2. WriteHeader (code (newHTTPError None 304 ''id %d'' [VString ''abc'']))
              (Header_Set ''X-Errid'' [] (newResponse None)) = Some w2
          \<and> snd (Encoder_Encode (\<lambda>format v. []) w2
                 (newHTTPError None 304 ''id %d'' [VString ''abc''])) = Some ErrBodyNotAllowed)\<close>
proof -
  let ?e = "newHTTPError None 304 ''id %d'' [VString ''abc'']"
  have c: "code ?e = 304"
    by (simp add: newHTTPError_def)
  have ok: "status (newResponse None) \<noteq> None \<or> (100 \<le> code ?e \<and> code ?e \<le> 999)"
    by (simp add: c)
  obtain w2 where w2: "WriteHeader (code ?e) (Header_Set ''X-Errid'' [] (newResponse None)) = Some w2"
    using ok by (rule api_error_Returns)
  have h: "status (newResponse None) = None" "Header (newResponse None) ''Content-Length'' = None"
    "broken (newResponse None) = None"
    by (simp_all add: newResponse_simps)
  note t = MarshalJSON_never_fails [where rest = "\<lambda>format v. []" and err = ?e and c = None
      and n = 304 and w = "newResponse None" and errID = "[]" and ?w2.0 = w2]
  note m = t [THEN conjunct2, THEN conjunct1]
  have p: "snd (Encoder_Encode (\<lambda>format v. []) w2 ?e) = Some ErrBodyNotAllowed"
    using t [THEN conjunct2, THEN conjunct2, THEN conjunct2, THEN conjunct2, THEN conjunct2,
        THEN conjunct2, THEN mp, OF conjI [OF h(1) conjI [OF h(2) w2]]]
    by (simp add: c)
  from h m w2 p show ?thesis
    by (intro conjI exI)
qed

text \<open>
  Claim C8 as stated fails in its second half: on a fresh response whose stream
  works, reporting an \<^verbatim>\<open>httpError\<close> with code 204 makes the encoder fail (the line
  with \<^verbatim>\<open>encodeErr\<close> is logged and no body is written), while the same value with
  code 500 is written; the failure comes from the code of the error value.
\<close>

theorem encode_failure_counterexample:
  \<open>broken (newResponse None) = None
   \<and> log (api_of (api_error (\<lambda>format v. []) (RandBytes (\<lambda>i. 0)) \<lparr>log = []\<rparr> (newResponse None)
            (newHTTPError (Some (ErrorString ''boom'')) 204 ''gone'' [])))
       = [''errID="00000000-0000-0000-0000-000000000000", err=boom, encodeErr='' @
          ''http: request method or response status code does not allow body'' @
          '', msg=error while reporting API error'']
   \<and> body (rw_of (api_error (\<lambda>format v. []) (RandBytes (\<lambda>i. 0)) \<lparr>log = []\<rparr> (newResponse None)
            (newHTTPError (Some (ErrorString ''boom'')) 204 ''gone'' []))) = []
   \<and> log (api_of (api_error (\<lambda>format v. []) (RandBytes (\<lambda>i. 0)) \<lparr>log = []\<rparr> (newResponse None)
            (newHTTPError (Some (ErrorString ''boom'')) 500 ''gone'' [])))
       = [''errID="00000000-0000-0000-0000-000000000000", err=boom'']
   \<and> body (rw_of (api_error (\<lambda>format v. []) (RandBytes (\<lambda>i. 0)) \<lparr>log = []\<rparr> (newResponse None)
            (newHTTPError (Some (ErrorString ''boom'')) 500 ''gone'' [])))
       = ''{"err":"gone"}'' @ [CHR 0x0A]\<close>
  by code_simp

text \<open>
  Claim C9. When the body is written (\<^verbatim>\<open>Encode\<close> returns no error), what \<^verbatim>\<open>api.error\<close>
  adds to the body is the JSON object followed by one newline, and the object
  itself holds no newline: on a fresh response the body is
  \<^verbatim>\<open>{"err":<JSON string of the rendered message>}\<close> and a newline. Here \<open>w2\<close> is the
  response after \<^verbatim>\<open>WriteHeader\<close>, the one the encoder writes on.
\<close>

theorem api_error_body:
  assumes gen: "genUUID rest rnd = Some (errID, genErr)"
    and hdr: "WriteHeader (code e) (Header_Set ''X-Errid'' errID w) = Some w2"
    and enc: "snd (Encoder_Encode rest w2 e) = None"
  shows \<open>returns (api_error rest rnd a w e)
     \<and> body (rw_of (api_error rest rnd a w e)) =
         body w @ ''{"err":'' @ appendString (Sprintf rest (msg e) (args e)) @ ''}'' @ [CHR 0x0A]
     \<and> CHR 0x0A \<notin> set (''{"err":'' @ appendString (Sprintf rest (msg e) (args e)) @ ''}'')\<close>
proof -
  note run = api_error_eq [OF gen, of a w e]
  have r: "returns (api_error rest rnd a w e)"
    unfolding run hdr by simp
  have "body (rw_of (api_error rest rnd a w e)) = body (fst (Encoder_Encode rest w2 e))"
    unfolding run hdr by simp
  also have "\<dots> = body w2 @ ''{\"err\":'' @ appendString (Sprintf rest (msg e) (args e)) @ ''}''
      @ [CHR 0x0A]"
    by (simp add: Encode_body enc)
  also have "body w2 = body w"
    by (simp add: WriteHeader_Some [OF hdr] Header_Set_simps)
  finally have b: "body (rw_of (api_error rest rnd a w e)) =
      body w @ ''{\"err\":'' @ appendString (Sprintf rest (msg e) (args e)) @ ''}'' @ [CHR 0x0A]" .
  have n: "CHR 0x0A \<notin> set (''{\"err\":'' @ appendString (Sprintf rest (msg e) (args e)) @ ''}'')"
    by (simp add: appendString_no_newline)
  from r b n show ?thesis
    by (intro conjI)
qed

theorem api_error_body_witness:
  \<open>genUUID (\<lambda>format v. []) (RandBytes (\<lambda>i. 0))
     = Some (''00000000-0000-0000-0000-000000000000'', None)
   \<and> (\<exists>w2. WriteHeader (code (error404 None ''no %v'' [VString ''page'']))
              (Header_Set ''X-Errid'' ''00000000-0000-0000-0000-000000000000'' (newResponse None))
            = Some w2
          \<and> snd (Encoder_Encode (\<lambda>format v. []) w2 (error404 None ''no %v'' [VString ''page'']))
            = None)
   \<and> returns (api_error (\<lambda>format v. []) (RandBytes (\<lambda>i. 0)) \<lparr>log = []\<rparr>
        (newResponse None) (error404 None ''no %v'' [VString ''page'']))
   \<and> body (rw_of (api_error (\<lambda>format v. []) (RandBytes (\<lambda>i. 0)) \<lparr>log = []\<rparr>
        (newResponse None) (error404 None ''no %v'' [VString ''page''])))
       = ''{"err":"no page"}'' @ [CHR 0x0A]\<close>
proof -
  let ?e = "error404 None ''no %v'' [VString ''page'']"
  have e: "code ?e = 404" "msg ?e = ''no %v''" "args ?e = [VString ''page'']"
    by (simp_all add: error404_def newHTTPError_def)
  have m: "appendString (Sprintf (\<lambda>format v. []) ''no %v'' [VString ''page'']) = [CHR 0x22] @ ''no page'' @ [CHR 0x22]"
    by code_simp
  note g = genUUID_zero
  have ok: "status (newResponse None) \<noteq> None \<or> (100 \<le> code ?e \<and> code ?e \<le> 999)"
    by (simp add: e)
  obtain w2 where w2: "WriteHeader (code ?e)
      (Header_Set ''X-Errid'' ''00000000-0000-0000-0000-000000000000'' (newResponse None)) = Some w2"
    using ok by (rule api_error_Returns)
  have enc: "snd (Encoder_Encode (\<lambda>format v. []) w2 ?e) = None"
    using Encode_error_fresh [OF _ _ w2, of "\<lambda>format v. []"]
    by (simp add: newResponse_simps e)
  have ex: "\<exists>w2. WriteHeader (code ?e)
      (Header_Set ''X-Errid'' ''00000000-0000-0000-0000-000000000000'' (newResponse None)) = Some w2
      \<and> snd (Encoder_Encode (\<lambda>format v. []) w2 ?e) = None"
    using w2 enc by (intro exI conjI)
  from api_error_body [OF g w2 enc, of "\<lparr>log = []\<rparr>"] g ex show ?thesis
    by (simp add: e m newResponse_simps)
qed

text \<open>
  Claim C10. A request for \<^verbatim>\<open>/example\<close> on a fresh response is answered with status
  500; the body is \<^verbatim>\<open>{"err":"internal server error"}\<close> ended by the encoder's newline
  (and empty when the stream is broken); the text \<^verbatim>\<open>server broken\<close> occurs neither in
  the body nor in the one header the handler sends, \<^verbatim>\<open>X-Errid\<close>.
\<close>

theorem example_route:
  \<open>status (rw_of (ServeHTTP rest rnd a (newResponse b) ''/example'')) = Some 500
   \<and> body (rw_of (ServeHTTP rest rnd a (newResponse b) ''/example''))
       = (if b = None then ''{"err":"internal server error"}'' @ [CHR 0x0A] else [])
   \<and> \<not> Contains (body (rw_of (ServeHTTP rest rnd a (newResponse b) ''/example''))) ''server broken''
   \<and> (\<exists>errID. sent (rw_of (ServeHTTP rest rnd a (newResponse b) ''/example''))
                  = [''X-Errid'' \<mapsto> [errID]]
              \<and> \<not> Contains errID ''server broken'')\<close>
proof -
  let ?e = "error500 (Some (Errorf rest ''exampleHandler: %v'' [VError errBroken]))"
  let ?out = "api_error rest rnd a (newResponse b) ?e"
  obtain errID genErr where gen: "genUUID rest rnd = Some (errID, genErr)"
    using genUUID_total by blast
  have s: "status (rw_of ?out) = Some 500"
    by (rule error500_status)
  have bd: "body (rw_of ?out)
      = (if b = None then ''{\"err\":\"internal server error\"}'' @ [CHR 0x0A] else [])"
    by (rule error500_body)
  have "\<not> Contains (if b = None then ''{\"err\":\"internal server error\"}'' @ [CHR 0x0A] else [])
      ''server broken''"
  proof (cases b)
    case None
    show ?thesis
      by (simp only: None simp_thms if_True body_not_Contains)
  next
    case (Some x)
    show ?thesis
      by (simp only: Some option.distinct if_False Contains.simps list.distinct simp_thms)
  qed
  then have nc: "\<not> Contains (body (rw_of ?out)) ''server broken''"
    unfolding bd .
  have h: "sent (rw_of ?out) = [''X-Errid'' \<mapsto> [errID]]"
    using api_error_sent [OF gen, of "newResponse b" ?e a] by (simp add: e500 newResponse_simps)
  have ni: "\<not> Contains errID ''server broken''"
    using genUUID_plain [OF gen] by (rule plain_not_Contains)
  from h ni have ex: "\<exists>errID. sent (rw_of ?out) = [''X-Errid'' \<mapsto> [errID]]
      \<and> \<not> Contains errID ''server broken''"
    by (intro exI [of _ errID] conjI)
  show ?thesis
    unfolding ServeHTTP_example by (rule conjI [OF s conjI [OF bd conjI [OF nc ex]]])
qed

end
